theory Spec2Isabelle
  imports Main "HOL-Library.Sublist"
begin

section \<open>Values, errors and the world outside the program\<close>

text \<open>
  The two source files are \<^verbatim>\<open>providers/dbt/core/operators.py\<close> (the task executor,
  class \<^verbatim>\<open>DBTBaseOperator\<close>) and \<^verbatim>\<open>cosmos/converter.py\<close> (argument validation of the
  graph converter). Python values that can be \<^verbatim>\<open>None\<close> are options; dictionaries are
  maps; every \<^verbatim>\<open>raise\<close> and \<^verbatim>\<open>sys.exit\<close> is a left injection.
\<close>

datatype pyvalue = PyNone | PyStr string | PyBool bool

datatype error =
    AirflowException string
  | AirflowSkipException string
  | AirflowItemsException string "string set"
  | AttributeError string
  | SystemExit int
  | OSError string

type_synonym environ = "string \<rightharpoonup> string option"

text \<open>Decimal printing of integers, for \<^verbatim>\<open>str(conn.port)\<close> and the exit codes in messages.\<close>

definition digit :: "nat \<Rightarrow> char" where
  "digit d = ''0123456789'' ! d"

fun string_of_nat :: "nat \<Rightarrow> string" where
  "string_of_nat n =
     (if n < 10 then [digit n] else string_of_nat (n div 10) @ [digit (n mod 10)])"

declare string_of_nat.simps [simp del]

definition str_int :: "int \<Rightarrow> string" where
  "str_int i = (if i < 0 then ''-'' @ string_of_nat (nat (- i)) else string_of_nat (nat i))"

fun str :: "pyvalue \<Rightarrow> string" where
  "str PyNone = ''None''"
| "str (PyStr s) = s"
| "str (PyBool b) = (if b then ''True'' else ''False'')"

text \<open>\<^verbatim>\<open>s.replace(old, new)\<close> for one-character arguments.\<close>

definition replace :: "char \<Rightarrow> char \<Rightarrow> string \<Rightarrow> string" where
  "replace old new s = map (\<lambda>c. if c = old then new else c) s"

subsection \<open>The file system\<close>

text \<open>
  A path is its list of components below the root; a file system maps the paths that exist
  to a directory or to a regular file with its contents. In a well-formed file system
  the root is a directory and whatever exists lies in a directory.
  Path strings are split at \<^verbatim>\<open>/\<close>; empty components are dropped, and a relative path is
  read from the root. The empty string names nothing (\<^verbatim>\<open>os.path.exists("")\<close> is false).
\<close>

type_synonym path = "string list"

datatype node = Dir | File string

type_synonym filesystem = "path \<rightharpoonup> node"

definition wf_fs :: "filesystem \<Rightarrow> bool" where
  "wf_fs f \<longleftrightarrow> f [] = Some Dir \<and> (\<forall>p. p \<noteq> [] \<longrightarrow> f p \<noteq> None \<longrightarrow> f (butlast p) = Some Dir)"

fun split_path :: "string \<Rightarrow> string \<Rightarrow> path" where
  "split_path cur [] = (if cur = [] then [] else [cur])"
| "split_path cur (c # cs) =
     (if c = CHR ''/'' then (if cur = [] then [] else [cur]) @ split_path [] cs
      else split_path (cur @ [c]) cs)"

definition is_file :: "node option \<Rightarrow> bool" where
  "is_file n = (case n of Some (File _) \<Rightarrow> True | _ \<Rightarrow> False)"

definition os_path_exists :: "filesystem \<Rightarrow> string \<Rightarrow> bool" where
  "os_path_exists f p \<longleftrightarrow> p \<noteq> [] \<and> f (split_path [] p) \<noteq> None"

definition os_path_isdir :: "filesystem \<Rightarrow> string \<Rightarrow> bool" where
  "os_path_isdir f p \<longleftrightarrow> p \<noteq> [] \<and> f (split_path [] p) = Some Dir"

text \<open>
  The operating system can refuse to make a directory or to open and write a file for a
  reason that is not in the shape of the tree: \<^verbatim>\<open>PermissionError\<close>, a read-only or a full
  device. Such refusals are a parameter of the two calls below: \<^verbatim>\<open>mkdir_refused f a\<close> is
  the name of the error that making the directory \<^verbatim>\<open>a\<close> raises in the file system \<^verbatim>\<open>f\<close>,
  when it raises one; \<^verbatim>\<open>open_refused f a\<close> is the name of the error that opening and
  writing the file \<^verbatim>\<open>a\<close> raises, with what the failed call leaves at \<^verbatim>\<open>a\<close>: nothing when
  the file could not be opened, the part that was written otherwise.
\<close>

type_synonym mkdir_refusal = "filesystem \<Rightarrow> path \<Rightarrow> string option"

type_synonym open_refusal = "filesystem \<Rightarrow> path \<Rightarrow> (string \<times> string option) option"

text \<open>
  \<^verbatim>\<open>os.makedirs(p)\<close> (with \<^verbatim>\<open>exist_ok=False\<close>): fails when \<^verbatim>\<open>p\<close> exists or when the
  deepest existing ancestor is a regular file, and then creates nothing; otherwise it
  makes the missing directories on the way to \<^verbatim>\<open>p\<close> one after the other, from the top,
  and stops at the first one that the operating system refuses. The directories made
  before a refusal stay. \<^verbatim>\<open>with_dirs q f\<close> is the file system after all of them are made.
\<close>

definition with_dirs :: "path \<Rightarrow> filesystem \<Rightarrow> filesystem" where
  "with_dirs q f = (\<lambda>a. if a \<in> set (prefixes q) \<and> f a = None then Some Dir else f a)"

fun mkdir_missing :: "mkdir_refusal \<Rightarrow> path list \<Rightarrow> filesystem \<Rightarrow> error option \<times> filesystem" where
  "mkdir_missing refused [] f = (None, f)"
| "mkdir_missing refused (a # as) f =
     (if f a \<noteq> None then mkdir_missing refused as f
      else case refused f a of
             Some e \<Rightarrow> (Some (OSError e), f)
           | None \<Rightarrow> mkdir_missing refused as (f(a \<mapsto> Dir)))"

declare mkdir_missing.simps [simp del]

definition os_makedirs :: "mkdir_refusal \<Rightarrow> filesystem \<Rightarrow> string \<Rightarrow> error option \<times> filesystem" where
  "os_makedirs refused f p =
     (let q = split_path [] p in
      if p = [] then (Some (OSError ''FileNotFoundError''), f)
      else if f q \<noteq> None then (Some (OSError ''FileExistsError''), f)
      else if list_ex (\<lambda>a. is_file (f a)) (prefixes q)
      then (Some (OSError ''NotADirectoryError''), f)
      else mkdir_missing refused (prefixes q) f)"

text \<open>
  \<^verbatim>\<open>open(p, "w")\<close> followed by writing \<^verbatim>\<open>text\<close>: the parent must be a directory and
  \<^verbatim>\<open>p\<close> must not be one; unless the operating system refuses, the file is created or
  truncated and holds \<^verbatim>\<open>text\<close> afterwards.
\<close>

definition open_write ::
  "open_refusal \<Rightarrow> filesystem \<Rightarrow> string \<Rightarrow> string \<Rightarrow> error option \<times> filesystem" where
  "open_write refused f p text =
     (let q = split_path [] p in
      if q = [] then (Some (OSError ''IsADirectoryError''), f)
      else if f (butlast q) = None then (Some (OSError ''FileNotFoundError''), f)
      else if f (butlast q) \<noteq> Some Dir then (Some (OSError ''NotADirectoryError''), f)
      else if f q = Some Dir then (Some (OSError ''IsADirectoryError''), f)
      else case refused f q of
             None \<Rightarrow> (None, f(q \<mapsto> File text))
           | Some (e, None) \<Rightarrow> (Some (OSError e), f)
           | Some (e, Some written) \<Rightarrow> (Some (OSError e), f(q \<mapsto> File written)))"

record world =
  files :: filesystem
  stdout :: "string list"
  stderr :: "string list"

subsection \<open>What the operator gets from its libraries\<close>

text \<open>
  The connection record returned by \<^verbatim>\<open>BaseHook().get_connection\<close>. Its fields are the
  attributes the source reads. \<^verbatim>\<open>type_attribute\<close> is the value of the attribute named
  \<^verbatim>\<open>type\<close> when the object has one, and \<open>None\<close> when it has none, as is the case for
  Airflow's \<^verbatim>\<open>Connection\<close> class, which names its type tag \<^verbatim>\<open>conn_type\<close>.
\<close>

record connection =
  conn_type :: string
  host :: "string option"
  login :: "string option"
  password :: "string option"
  conn_schema :: "string option"
  port :: "int option"
  type_attribute :: "string option"

record subprocess_result =
  exit_code :: int
  output_text :: string

datatype yaml = YStr string | YMap "(string \<times> yaml) list"

text \<open>
  The library calls whose results the operator only consumes: \<^verbatim>\<open>yaml.dump\<close>,
  \<^verbatim>\<open>shutil.which("dbt")\<close>, the connection lookup by id, \<^verbatim>\<open>os.environ\<close>, and
  \<^verbatim>\<open>SubprocessHook.run_command(command, env, output_encoding, cwd)\<close>; and the refusals
  of the operating system that \<^verbatim>\<open>os.makedirs\<close> and \<^verbatim>\<open>open\<close> pass on as \<^verbatim>\<open>OSError\<close>.
\<close>

record runtime =
  yaml_dump :: "yaml \<Rightarrow> string"
  which_dbt :: "string option"
  get_connection :: "string \<Rightarrow> error + connection"
  os_environ :: environ
  subprocess_run :: "string option list \<Rightarrow> environ \<Rightarrow> string \<Rightarrow> string option \<Rightarrow> subprocess_result"
  mkdir_error :: mkdir_refusal
  open_error :: open_refusal

section \<open>The task executor: \<^verbatim>\<open>DBTBaseOperator\<close>\<close>

record operator =
  project_dir :: "string option"
  conn_id :: string
  base_cmd :: "string option"
  select :: "string option"
  exclude :: "string option"
  selector :: "string option"
  vars :: "string option"
  models :: "string option"
  cache_selected_only :: bool
  no_version_check :: bool
  fail_fast :: bool
  quiet :: bool
  warn_error :: bool
  schema :: "string option"
  env :: "environ option"
  append_env :: bool
  output_encoding :: string
  skip_exit_code :: "int option"

text \<open>\<^verbatim>\<open>__init__\<close> with every keyword argument at its default.\<close>

definition DBTBaseOperator :: "string \<Rightarrow> string \<Rightarrow> operator" where
  "DBTBaseOperator pd cid =
     \<lparr>project_dir = Some pd, conn_id = cid, base_cmd = None, select = None, exclude = None,
      selector = None, vars = None, models = None, cache_selected_only = False,
      no_version_check = False, fail_fast = False, quiet = False, warn_error = False,
      schema = None, env = None, append_env = False, output_encoding = ''utf-8'',
      skip_exit_code = Some 99\<rparr>"

definition of_optional :: "string option \<Rightarrow> pyvalue" where
  "of_optional v = (case v of None \<Rightarrow> PyNone | Some s \<Rightarrow> PyStr s)"

text \<open>\<^verbatim>\<open>self.__getattribute__(name)\<close> on the attributes that the flag loops ask for.\<close>

definition getattribute :: "operator \<Rightarrow> string \<Rightarrow> pyvalue" where
  "getattribute self name =
     (if name = ''project_dir'' then of_optional (project_dir self)
      else if name = ''select'' then of_optional (select self)
      else if name = ''exclude'' then of_optional (exclude self)
      else if name = ''selector'' then of_optional (selector self)
      else if name = ''vars'' then of_optional (vars self)
      else if name = ''models'' then of_optional (models self)
      else if name = ''no_version_check'' then PyBool (no_version_check self)
      else if name = ''cache_selected_only'' then PyBool (cache_selected_only self)
      else if name = ''fail_fast'' then PyBool (fail_fast self)
      else if name = ''quiet'' then PyBool (quiet self)
      else if name = ''warn_error'' then PyBool (warn_error self)
      else PyNone)"

definition global_flags :: "string list" where
  "global_flags = [''project_dir'', ''select'', ''exclude'', ''selector'', ''vars'', ''models'']"

definition global_boolean_flags :: "string list" where
  "global_boolean_flags =
     [''no_version_check'', ''cache_selected_only'', ''fail_fast'', ''quiet'', ''warn_error'']"

text \<open>
  The bodies of the two loops of \<^verbatim>\<open>add_global_flags\<close>, each appending to \<^verbatim>\<open>flags\<close>,
  and the function itself.
\<close>

definition value_flag_step :: "operator \<Rightarrow> string \<Rightarrow> string list \<Rightarrow> string list" where
  "value_flag_step self global_flag flags =
     (let dbt_name = ''--'' @ replace (CHR ''_'') (CHR ''-'') global_flag;
          global_flag_value = getattribute self global_flag
      in if global_flag_value \<noteq> PyNone
         then flags @ [dbt_name, str global_flag_value] else flags)"

definition boolean_flag_step :: "operator \<Rightarrow> string \<Rightarrow> string list \<Rightarrow> string list" where
  "boolean_flag_step self global_boolean_flag flags =
     (let dbt_name = ''--'' @ replace (CHR ''_'') (CHR ''-'') global_boolean_flag;
          global_boolean_flag_value = getattribute self global_boolean_flag
      in if global_boolean_flag_value = PyBool True
         then flags @ [dbt_name] else flags)"

definition add_global_flags :: "operator \<Rightarrow> string list" where
  "add_global_flags self =
     (let flags = fold (value_flag_step self) global_flags []
      in fold (boolean_flag_step self) global_boolean_flags flags)"

text \<open>
  \<^verbatim>\<open>shutil.which("dbt") or "dbt"\<close>: the path found, or the bare name when nothing (or the
  empty string) was found.
\<close>

definition resolved_dbt :: "runtime \<Rightarrow> string" where
  "resolved_dbt rt = (case which_dbt rt of None \<Rightarrow> ''dbt'' | Some w \<Rightarrow> if w = [] then ''dbt'' else w)"

definition get_dbt_path :: "runtime \<Rightarrow> filesystem \<Rightarrow> operator \<Rightarrow> error + string" where
  "get_dbt_path rt f self =
     (let dbt_path = resolved_dbt rt
      in case project_dir self of
           None \<Rightarrow> Inr dbt_path
         | Some d \<Rightarrow>
             if \<not> os_path_exists f d
             then Inl (AirflowException (''Can not find the project_dir: '' @ d))
             else if \<not> os_path_isdir f d
             then Inl (AirflowException (''The project_dir '' @ d @ '' must be a directory''))
             else Inr dbt_path)"

definition build_command :: "runtime \<Rightarrow> filesystem \<Rightarrow> operator \<Rightarrow> error + string option list" where
  "build_command rt f self =
     (case get_dbt_path rt f self of
        Inl e \<Rightarrow> Inl e
      | Inr dbt_path \<Rightarrow> Inr ([Some dbt_path, base_cmd self] @ map Some (add_global_flags self)))"

definition exception_handling :: "operator \<Rightarrow> subprocess_result \<Rightarrow> error + unit" where
  "exception_handling self result =
     (if skip_exit_code self \<noteq> None \<and> Some (exit_code result) = skip_exit_code self
      then Inl (AirflowSkipException
             (''dbt command returned exit code '' @ str_int (the (skip_exit_code self))
              @ ''. Skipping.''))
      else if exit_code result \<noteq> 0
      then Inl (AirflowException
             (''dbt command failed. The command returned a non-zero exit code ''
              @ str_int (exit_code result) @ ''.''))
      else Inr ())"

definition run_command ::
  "runtime \<Rightarrow> operator \<Rightarrow> string option list \<Rightarrow> environ \<Rightarrow> error + subprocess_result" where
  "run_command rt self cmd e =
     (let result = subprocess_run rt cmd e (output_encoding self) (project_dir self)
      in case exception_handling self result of
           Inl err \<Rightarrow> Inl err
         | Inr _ \<Rightarrow> Inr result)"

text \<open>
  \<^verbatim>\<open>get_env\<close>: the system environment is used when no \<^verbatim>\<open>env\<close> was given, and under
  \<^verbatim>\<open>env\<close> when \<^verbatim>\<open>append_env\<close> is set; the context variables are written over the result.
  (The in-place update of \<^verbatim>\<open>self.env\<close> that the source performs when \<^verbatim>\<open>append_env\<close> is
  false shows only in a later call and is not part of the returned value.)
\<close>

definition get_env :: "runtime \<Rightarrow> operator \<Rightarrow> environ \<Rightarrow> environ" where
  "get_env rt self airflow_context_vars =
     (let system_env = os_environ rt;
          e = (case env self of
                 None \<Rightarrow> system_env
               | Some user \<Rightarrow> if append_env self then system_env ++ user else user)
      in e ++ airflow_context_vars)"

definition profile :: yaml where
  "profile =
     YMap [(''postgres_profile'', YMap [
        (''outputs'', YMap [(''dev'', YMap [
           (''type'', YStr ''postgres''),
           (''host'', YStr ''{{ env_var('POSTGRES_HOST') }}''),
           (''port'', YStr ''{{ env_var('POSTGRES_PORT') | as_number }}''),
           (''user'', YStr ''{{ env_var('POSTGRES_USER') }}''),
           (''pass'', YStr ''{{ env_var('POSTGRES_PASSWORD') }}''),
           (''dbname'', YStr ''{{ env_var('POSTGRES_DATABASE') }}''),
           (''schema'', YStr ''{{ env_var('POSTGRES_SCHEMA') }}'')])]),
        (''target'', YStr ''dev'')])]"

definition directory_path :: string where
  "directory_path = ''/home/astro/.dbt''"

definition file_path :: string where
  "file_path = ''/home/astro/.dbt/profiles.yml''"

definition create_default_profiles :: "runtime \<Rightarrow> world \<Rightarrow> (error + unit) \<times> world" where
  "create_default_profiles rt w =
     (case (if \<not> os_path_exists (files w) directory_path
            then os_makedirs (mkdir_error rt) (files w) directory_path else (None, files w)) of
        (Some e, f1) \<Rightarrow> (Inl e, w\<lparr>files := f1\<rparr>)
      | (None, f1) \<Rightarrow>
          if \<not> os_path_exists f1 file_path
          then (let w1 = w\<lparr>files := f1,
                            stdout := stdout w @ [''profiles.yml not found - initializing.'']\<rparr>
                in case open_write (open_error rt) f1 file_path (yaml_dump rt profile) of
                     (Some e, f2) \<Rightarrow> (Inl e, w1\<lparr>files := f2\<rparr>)
                   | (None, f2) \<Rightarrow> (Inr (), w1\<lparr>files := f2, stdout := stdout w1 @ [''done'']\<rparr>))
          else (Inr (), w\<lparr>files := f1, stdout := stdout w @ [''profiles.yml found - skipping'']\<rparr>))"

text \<open>The dictionary \<^verbatim>\<open>profile_vars\<close> that \<^verbatim>\<open>map_profile\<close> builds for a postgres connection.\<close>

definition profile_vars :: "connection \<Rightarrow> operator \<Rightarrow> environ" where
  "profile_vars conn self =
     [''POSTGRES_HOST'' \<mapsto> host conn,
      ''POSTGRES_USER'' \<mapsto> login conn,
      ''POSTGRES_PASSWORD'' \<mapsto> password conn,
      ''POSTGRES_DATABASE'' \<mapsto> conn_schema conn,
      ''POSTGRES_PORT'' \<mapsto> Some (case port conn of None \<Rightarrow> ''None'' | Some n \<Rightarrow> str_int n),
      ''POSTGRES_SCHEMA'' \<mapsto> schema self]"

definition map_profile ::
  "runtime \<Rightarrow> operator \<Rightarrow> world \<Rightarrow> (error + string \<times> environ) \<times> world" where
  "map_profile rt self w =
     (case get_connection rt (conn_id self) of
        Inl e \<Rightarrow> (Inl e, w)
      | Inr conn \<Rightarrow>
          if conn_type conn = ''postgres''
          then (Inr (''postgres_profile'', profile_vars conn self), w)
          else (case type_attribute conn of
                  None \<Rightarrow> (Inl (AttributeError ''type''), w)
                | Some t \<Rightarrow>
                    (Inl (SystemExit 1),
                     w\<lparr>stderr := stderr w
                         @ [''Connection type '' @ t @ '' is not yet supported.'']\<rparr>)))"

text \<open>
  \<^verbatim>\<open>execute\<close> up to the subprocess call: the command, the environment and the working
  directory that are handed to the subprocess hook.
\<close>

definition execute_prepare ::
  "runtime \<Rightarrow> operator \<Rightarrow> environ \<Rightarrow> world
     \<Rightarrow> (error + string option list \<times> environ) \<times> world" where
  "execute_prepare rt self context w =
     (case create_default_profiles rt w of
        (Inl e, w1) \<Rightarrow> (Inl e, w1)
      | (Inr _, w1) \<Rightarrow>
          (case map_profile rt self w1 of
             (Inl e, w2) \<Rightarrow> (Inl e, w2)
           | (Inr (prof, pvars), w2) \<Rightarrow>
               (let e = get_env rt self context ++ pvars;
                    target_flag = [Some ''--profile'', Some prof]
                in case build_command rt (files w2) self of
                     Inl err \<Rightarrow> (Inl err, w2)
                   | Inr bc \<Rightarrow> (Inr (bc @ target_flag, e), w2))))"

definition execute :: "runtime \<Rightarrow> operator \<Rightarrow> environ \<Rightarrow> world \<Rightarrow> (error + string) \<times> world" where
  "execute rt self context w =
     (case execute_prepare rt self context w of
        (Inl e, w1) \<Rightarrow> (Inl e, w1)
      | (Inr (cmd, e), w1) \<Rightarrow>
          (case run_command rt self cmd e of
             Inl err \<Rightarrow> (Inl err, w1)
           | Inr result \<Rightarrow> (Inr (output_text result), w1)))"

section \<open>The graph converter: argument validation\<close>

text \<open>
  \<^verbatim>\<open>retrieve_by_label\<close> belongs to \<^verbatim>\<open>cosmos.dbt.selector\<close>, which is not among the
  sources; \<^verbatim>\<open>validate_arguments\<close> takes it as a parameter. The items are strings, so
  \<^verbatim>\<open>str(item)\<close> is the item; \<^verbatim>\<open>field[:-1]\<close> drops the plural.
\<close>

definition validate_arguments ::
  "(string list \<Rightarrow> string \<Rightarrow> string list) \<Rightarrow> string list \<Rightarrow> string list
     \<Rightarrow> (string \<rightharpoonup> 'v) \<Rightarrow> error + unit" where
  "validate_arguments retrieve_by_label sel exc task_args =
     (case fold (\<lambda>field r.
             case r of
               Inl e \<Rightarrow> Inl e
             | Inr _ \<Rightarrow>
                 (let select_items = retrieve_by_label sel field;
                      exclude_items = retrieve_by_label exc field;
                      intersection = set select_items \<inter> set exclude_items
                  in if intersection \<noteq> {}
                     then Inl (AirflowItemsException
                            (''Can't specify the same '' @ butlast field
                             @ '' in `select` and `exclude`: '') intersection)
                     else Inr ()))
           [''tags'', ''paths''] (Inr ()) of
        Inl e \<Rightarrow> Inl e
      | Inr _ \<Rightarrow>
          if ''schema'' \<in> dom task_args
          then Inl (AirflowException
                 ''The `schema` argument is no longer supported. Please use the `profile_args` instead.'')
          else Inr ())"

text \<open>
  \<^verbatim>\<open>DbtToAirflowConverter.__init__\<close>. The mode checks, the project and the graph loading
  (lines 145 to 169) call modules outside the sources: \<^verbatim>\<open>load\<close> stands for them and yields the
  nodes or the exception they raise. \<^verbatim>\<open>build_airflow_graph\<close> creates the tasks.
  \<^verbatim>\<open>or_empty\<close> is \<^verbatim>\<open>select or []\<close>.
\<close>

definition or_empty :: "'a list option \<Rightarrow> 'a list" where
  "or_empty v = (case v of None \<Rightarrow> [] | Some xs \<Rightarrow> xs)"

definition DbtToAirflowConverter ::
  "(string list \<Rightarrow> string \<Rightarrow> string list) \<Rightarrow> (string list \<Rightarrow> string list \<Rightarrow> error + 'n)
     \<Rightarrow> ('n \<Rightarrow> (string \<rightharpoonup> 'v) \<Rightarrow> 't)
     \<Rightarrow> string list option \<Rightarrow> string list option
     \<Rightarrow> (string \<rightharpoonup> 'v) \<Rightarrow> (string \<rightharpoonup> 'v) \<Rightarrow> 'v \<Rightarrow> 'v \<Rightarrow> error + 't" where
  "DbtToAirflowConverter retrieve_by_label load build_airflow_graph sel_arg exc_arg
       dbt_args operator_args dbt_project_dir profile_config =
     (let sel = or_empty sel_arg;
          exc = or_empty exc_arg
      in case load sel exc of
           Inl e \<Rightarrow> Inl e
         | Inr nodes \<Rightarrow>
             (let task_args = (dbt_args ++ operator_args)
                     (''project_dir'' \<mapsto> dbt_project_dir, ''profile_config'' \<mapsto> profile_config)
              in case validate_arguments retrieve_by_label sel exc task_args of
                   Inl e \<Rightarrow> Inl e
                 | Inr _ \<Rightarrow> Inr (build_airflow_graph nodes task_args)))"

text \<open>
  Modelled from the spec: \<^verbatim>\<open>retrieve_by_label\<close> of \<^verbatim>\<open>cosmos.dbt.selector\<close> is missing
  from the sources. The spec describes selectors as strings \<^verbatim>\<open>tag:<value>\<close> and
  \<^verbatim>\<open>path:<value>\<close>; this reading collects the values of one label category and is used
  only to run the validation on concrete selector lists.
\<close>

definition strip_prefix :: "string \<Rightarrow> string \<Rightarrow> string option" where
  "strip_prefix pre s = (if take (length pre) s = pre then Some (drop (length pre) s) else None)"

definition retrieve_by_label_spec :: "string list \<Rightarrow> string \<Rightarrow> string list" where
  "retrieve_by_label_spec statements label =
     (let pre = (if label = ''tags'' then ''tag:'' else if label = ''paths'' then ''path:'' else label @ '':'')
      in concat (map (\<lambda>s. case strip_prefix pre s of None \<Rightarrow> [] | Some v \<Rightarrow> [v]) statements))"

section \<open>The flag layout of the specification\<close>

text \<open>
  The specification's two kinds of flag: a \<^verbatim>\<open>--flag value\<close> pair that is present when the
  field is not \<^verbatim>\<open>None\<close>, and a bare flag that is present when the field is \<^verbatim>\<open>True\<close>.
\<close>

definition flag_pair :: "string \<Rightarrow> string option \<Rightarrow> string list" where
  "flag_pair name v = (case v of None \<Rightarrow> [] | Some x \<Rightarrow> [name, x])"

definition bare_flag :: "string \<Rightarrow> bool \<Rightarrow> string list" where
  "bare_flag name b = (if b then [name] else [])"

definition spec_flags :: "operator \<Rightarrow> string list" where
  "spec_flags self =
     flag_pair ''--project-dir'' (project_dir self) @ flag_pair ''--select'' (select self)
     @ flag_pair ''--exclude'' (exclude self) @ flag_pair ''--selector'' (selector self)
     @ flag_pair ''--vars'' (vars self) @ flag_pair ''--models'' (models self)
     @ bare_flag ''--no-version-check'' (no_version_check self)
     @ bare_flag ''--cache-selected-only'' (cache_selected_only self)
     @ bare_flag ''--fail-fast'' (fail_fast self)
     @ bare_flag ''--quiet'' (quiet self)
     @ bare_flag ''--warn-error'' (warn_error self)"

section \<open>Selector overlap\<close>

text \<open>
  Some item of one label category (\<^verbatim>\<open>tags\<close> or \<^verbatim>\<open>paths\<close>) is in both selector lists.
\<close>

definition overlap :: "(string list \<Rightarrow> string \<Rightarrow> string list) \<Rightarrow> string list \<Rightarrow> string list \<Rightarrow> bool" where
  "overlap retrieve_by_label sel exc \<longleftrightarrow>
     list_ex (\<lambda>field. list_ex (\<lambda>x. x \<in> set (retrieve_by_label exc field))
                           (retrieve_by_label sel field)) [''tags'', ''paths'']"

section \<open>Concrete runs\<close>

definition example_connection :: connection where
  "example_connection =
     \<lparr>conn_type = ''postgres'', host = Some ''db.local'', login = Some ''alice'',
      password = Some ''secret'', conn_schema = Some ''warehouse'', port = Some 5432,
      type_attribute = None\<rparr>"

definition example_runtime :: runtime where
  "example_runtime =
     \<lparr>yaml_dump = (\<lambda>_. ''postgres_profile: {}''),
      which_dbt = Some ''/usr/local/bin/dbt'',
      get_connection = (\<lambda>_. Inr example_connection),
      os_environ = [''PATH'' \<mapsto> Some ''/usr/bin''],
      subprocess_run = (\<lambda>cmd e enc cwd. \<lparr>exit_code = 0, output_text = ''Done.''\<rparr>),
      mkdir_error = (\<lambda>f a. None),
      open_error = (\<lambda>f a. None)\<rparr>"

definition example_files :: filesystem where
  "example_files = [[] \<mapsto> Dir, [''x''] \<mapsto> Dir]"

definition example_world :: world where
  "example_world = \<lparr>files = example_files, stdout = [], stderr = []\<rparr>"

definition example_operator :: operator where
  "example_operator =
     (DBTBaseOperator ''/x'' ''my_conn'')
       \<lparr>base_cmd := Some ''run'', select := Some ''tag:a'', fail_fast := True\<rparr>"

text \<open>A file system that already holds a profile file, and one where the directory path is
  taken by a regular file.\<close>

definition files_with_profile :: filesystem where
  "files_with_profile =
     [[] \<mapsto> Dir, [''home''] \<mapsto> Dir, [''home'', ''astro''] \<mapsto> Dir,
      [''home'', ''astro'', ''.dbt''] \<mapsto> Dir,
      [''home'', ''astro'', ''.dbt'', ''profiles.yml''] \<mapsto> File ''mine'']"

definition files_obstructed :: filesystem where
  "files_obstructed =
     [[] \<mapsto> Dir, [''home''] \<mapsto> Dir, [''home'', ''astro''] \<mapsto> Dir,
      [''home'', ''astro'', ''.dbt''] \<mapsto> File ''notes'']"

definition world_with_profile :: world where
  "world_with_profile = \<lparr>files = files_with_profile, stdout = [], stderr = []\<rparr>"

text \<open>The components of the two fixed paths.\<close>

abbreviation (input) profiles_dir :: path where
  "profiles_dir \<equiv> [''home'', ''astro'', ''.dbt'']"

abbreviation (input) profiles_file :: path where
  "profiles_file \<equiv> [''home'', ''astro'', ''.dbt'', ''profiles.yml'']"

text \<open>The keys of \<^verbatim>\<open>profile_vars\<close>, and an operator and a user environment for the runs.\<close>

definition credential_keys :: "string set" where
  "credential_keys =
     {''POSTGRES_HOST'', ''POSTGRES_USER'', ''POSTGRES_PASSWORD'', ''POSTGRES_DATABASE'',
      ''POSTGRES_PORT'', ''POSTGRES_SCHEMA''}"

definition operator_with_env :: operator where
  "operator_with_env = example_operator\<lparr>env := Some [''DBT_TARGET'' \<mapsto> Some ''dev'']\<rparr>"

definition operator_with_schema :: operator where
  "operator_with_schema = example_operator\<lparr>schema := Some ''analytics''\<rparr>"

definition mysql_runtime :: runtime where
  "mysql_runtime =
     example_runtime\<lparr>get_connection := (\<lambda>_. Inr (example_connection\<lparr>conn_type := ''mysql''\<rparr>))\<rparr>"

text \<open>A runtime on a read-only device: the operating system refuses every new directory.\<close>

definition readonly_runtime :: runtime where
  "readonly_runtime = example_runtime\<lparr>mkdir_error := (\<lambda>f a. Some ''PermissionError'')\<rparr>"

section \<open>The profile file: what \<^verbatim>\<open>create_default_profiles\<close> does\<close>

lemma split_directory_path: "split_path [] directory_path = [''home'', ''astro'', ''.dbt'']"
  by (simp add: directory_path_def)

lemma split_file_path: "split_path [] file_path = [''home'', ''astro'', ''.dbt'', ''profiles.yml'']"
  by (simp add: file_path_def)

lemma exists_directory_path:
  "os_path_exists f directory_path \<longleftrightarrow> f [''home'', ''astro'', ''.dbt''] \<noteq> None"
  by (simp add: os_path_exists_def split_directory_path) (simp add: directory_path_def)

lemma exists_file_path:
  "os_path_exists f file_path \<longleftrightarrow> f [''home'', ''astro'', ''.dbt'', ''profiles.yml''] \<noteq> None"
  by (simp add: os_path_exists_def split_file_path) (simp add: file_path_def)


lemma makedirs_directory_path:
  "os_makedirs r f directory_path =
     (if f [''home'', ''astro'', ''.dbt''] \<noteq> None then (Some (OSError ''FileExistsError''), f)
      else if list_ex (\<lambda>a. is_file (f a)) (prefixes [''home'', ''astro'', ''.dbt''])
      then (Some (OSError ''NotADirectoryError''), f)
      else mkdir_missing r (prefixes [''home'', ''astro'', ''.dbt'']) f)"
  unfolding os_makedirs_def split_directory_path Let_def
  by (simp add: directory_path_def)

lemma open_write_file_path:
  "open_write r f file_path t =
     (if f [''home'', ''astro'', ''.dbt''] = None then (Some (OSError ''FileNotFoundError''), f)
      else if f [''home'', ''astro'', ''.dbt''] \<noteq> Some Dir
      then (Some (OSError ''NotADirectoryError''), f)
      else if f [''home'', ''astro'', ''.dbt'', ''profiles.yml''] = Some Dir
      then (Some (OSError ''IsADirectoryError''), f)
      else case r f [''home'', ''astro'', ''.dbt'', ''profiles.yml''] of
             None \<Rightarrow> (None, f([''home'', ''astro'', ''.dbt'', ''profiles.yml''] \<mapsto> File t))
           | Some (e, None) \<Rightarrow> (Some (OSError e), f)
           | Some (e, Some written) \<Rightarrow>
               (Some (OSError e), f([''home'', ''astro'', ''.dbt'', ''profiles.yml''] \<mapsto> File written)))"
  unfolding open_write_def split_file_path Let_def
  by simp

lemma wf_parent: "wf_fs f \<Longrightarrow> f (p @ [c]) \<noteq> None \<Longrightarrow> f p = Some Dir"
  unfolding wf_fs_def by (metis butlast_snoc snoc_eq_iff_butlast)

lemma wf_dir_of_file:
  assumes "wf_fs f" "f [''home'', ''astro'', ''.dbt'', ''profiles.yml''] \<noteq> None"
  shows "f [''home'', ''astro'', ''.dbt''] = Some Dir"
  using wf_parent [OF assms(1), of "[''home'', ''astro'', ''.dbt'']" "''profiles.yml''"] assms(2)
  by simp

lemma wf_prefixes_dir:
  assumes "wf_fs f" "f [''home'', ''astro'', ''.dbt''] \<noteq> None"
  shows "f [''home'', ''astro''] = Some Dir" "f [''home''] = Some Dir" "f [] = Some Dir"
proof -
  show a: "f [''home'', ''astro''] = Some Dir"
    using wf_parent [OF assms(1), of "[''home'', ''astro'']" "''.dbt''"] assms(2) by simp
  show b: "f [''home''] = Some Dir"
    using wf_parent [OF assms(1), of "[''home'']" "''astro''"] a by simp
  show "f [] = Some Dir" using assms(1) by (simp add: wf_fs_def)
qed

lemma with_dirs_simps:
  "with_dirs profiles_dir f [''home'', ''astro'', ''.dbt''] = (if f [''home'', ''astro'', ''.dbt''] = None then Some Dir else f [''home'', ''astro'', ''.dbt''])"
  "with_dirs profiles_dir f [''home'', ''astro'', ''.dbt'', ''profiles.yml''] = f [''home'', ''astro'', ''.dbt'', ''profiles.yml'']"
  by (simp_all add: with_dirs_def)

lemma with_dirs_keeps: "f p = Some n \<Longrightarrow> with_dirs profiles_dir f p = Some n"
  by (simp add: with_dirs_def)

lemma mkdir_missing_keeps: "f p = Some n \<Longrightarrow> snd (mkdir_missing r ps f) p = Some n"
proof (induction ps arbitrary: f)
  case Nil
  then show ?case by (simp add: mkdir_missing.simps)
next
  case (Cons a as)
  show ?case
  proof (cases "f a = None \<and> r f a = None")
    case True
    then have step: "mkdir_missing r (a # as) f = mkdir_missing r as (f(a \<mapsto> Dir))"
      by (simp add: mkdir_missing.simps)
    from True Cons.prems have "(f(a \<mapsto> Dir)) p = Some n" by auto
    then show ?thesis unfolding step by (rule Cons.IH)
  next
    case False
    have ih: "snd (mkdir_missing r as f) p = Some n" using Cons.prems by (rule Cons.IH)
    from False ih Cons.prems show ?thesis
      by (auto simp: mkdir_missing.simps split: option.splits)
  qed
qed

lemma mkdir_missing_done:
  "fst (mkdir_missing r ps f) = None \<Longrightarrow> snd (mkdir_missing r ps f) = (\<lambda>a. if a \<in> set ps \<and> f a = None then Some Dir else f a)"
proof (induction ps arbitrary: f)
  case Nil
  then show ?case by (simp add: mkdir_missing.simps)
next
  case (Cons a as)
  show ?case
  proof (cases "f a")
    case (Some n)
    then have step: "mkdir_missing r (a # as) f = mkdir_missing r as f"
      by (simp add: mkdir_missing.simps)
    with Cons.prems have "fst (mkdir_missing r as f) = None" by simp
    from Cons.IH [OF this] have ih: "snd (mkdir_missing r as f)
        = (\<lambda>b. if b \<in> set as \<and> f b = None then Some Dir else f b)" .
    show ?thesis unfolding step ih using Some by (auto simp: fun_eq_iff)
  next
    case None
    show ?thesis
    proof (cases "r f a")
      case (Some e)
      with None Cons.prems show ?thesis by (simp add: mkdir_missing.simps)
    next
      case ok: None
      from None ok have step: "mkdir_missing r (a # as) f = mkdir_missing r as (f(a \<mapsto> Dir))"
        by (simp add: mkdir_missing.simps)
      with Cons.prems have "fst (mkdir_missing r as (f(a \<mapsto> Dir))) = None" by simp
      from Cons.IH [OF this] have ih: "snd (mkdir_missing r as (f(a \<mapsto> Dir)))
          = (\<lambda>b. if b \<in> set as \<and> (f(a \<mapsto> Dir)) b = None then Some Dir else (f(a \<mapsto> Dir)) b)" .
      show ?thesis unfolding step ih using None by (auto simp: fun_eq_iff)
    qed
  qed
qed

lemma mkdir_missing_allowed:
  "(\<forall>g a. r g a = None) \<Longrightarrow> fst (mkdir_missing r ps f) = None"
  by (induction ps arbitrary: f) (auto simp: mkdir_missing.simps)

lemma mkdir_missing_error:
  "fst (mkdir_missing r ps f) = Some e \<Longrightarrow> \<exists>n. e = OSError n"
  by (induction ps arbitrary: f) (auto simp: mkdir_missing.simps split: option.splits if_splits)

lemma makedirs_done:
  assumes "os_makedirs r f directory_path = (None, f1)"
  shows "f1 = with_dirs profiles_dir f"
proof -
  from assms have m: "mkdir_missing r (prefixes profiles_dir) f = (None, f1)"
    unfolding makedirs_directory_path by (simp split: if_splits)
  then have "fst (mkdir_missing r (prefixes profiles_dir) f) = None" by simp
  from mkdir_missing_done [OF this] m show ?thesis unfolding with_dirs_def by simp
qed

lemma makedirs_keeps:
  assumes "f p = Some n"
  shows "snd (os_makedirs r f directory_path) p = Some n"
  unfolding makedirs_directory_path
  using mkdir_missing_keeps [of f p n r "prefixes profiles_dir"] assms by simp

lemma makedirs_error:
  assumes "fst (os_makedirs r f directory_path) = Some e"
  shows "\<exists>n. e = OSError n"
  using assms mkdir_missing_error [of r "prefixes profiles_dir" f e]
  unfolding makedirs_directory_path by (auto split: if_splits)

lemma makedirs_allowed:
  assumes "f profiles_dir = None" "\<not> list_ex (\<lambda>a. is_file (f a)) (prefixes profiles_dir)"
    "\<forall>g a. r g a = None"
  shows "fst (os_makedirs r f directory_path) = None"
  unfolding makedirs_directory_path
  using assms(1,2) mkdir_missing_allowed [OF assms(3), of "prefixes profiles_dir" f]
  by simp

lemma open_write_returns:
  assumes "open_write r f file_path t = (None, f2)"
  shows "f2 = f(profiles_file \<mapsto> File t)"
  using assms unfolding open_write_file_path
  by (auto split: if_splits option.splits prod.splits)

lemma open_write_error:
  assumes "fst (open_write r f file_path t) = Some e"
  shows "\<exists>n. e = OSError n"
  using assms unfolding open_write_file_path
  by (auto split: if_splits option.splits prod.splits)

lemma open_write_keeps:
  assumes "f profiles_file = None" "f p = Some n"
  shows "snd (open_write r f file_path t) p = Some n"
  using assms unfolding open_write_file_path
  by (auto split: if_splits option.splits prod.splits)

lemma open_write_allowed:
  assumes "f profiles_dir = Some Dir" "f profiles_file = None" "\<forall>g a. r g a = None"
  shows "fst (open_write r f file_path t) = None"
  using assms unfolding open_write_file_path by simp

lemma cdp_dir_present:
  assumes "files w profiles_dir \<noteq> None"
  shows "create_default_profiles rt w =
     (if files w profiles_file \<noteq> None
      then (Inr (), w\<lparr>stdout := stdout w @ [''profiles.yml found - skipping'']\<rparr>)
      else case open_write (open_error rt) (files w) file_path (yaml_dump rt profile) of
             (Some e, f2) \<Rightarrow>
               (Inl e, w\<lparr>files := f2,
                          stdout := stdout w @ [''profiles.yml not found - initializing.'']\<rparr>)
           | (None, f2) \<Rightarrow>
               (Inr (), w\<lparr>files := f2,
                           stdout := stdout w @ [''profiles.yml not found - initializing.'', ''done'']\<rparr>))"
  using assms unfolding create_default_profiles_def
  by (simp add: exists_directory_path exists_file_path Let_def split: prod.splits option.splits)

lemma cdp_dir_absent:
  assumes "files w profiles_dir = None"
    and "os_makedirs (mkdir_error rt) (files w) directory_path = (m, f1)"
  shows "create_default_profiles rt w =
     (case m of
        Some e \<Rightarrow> (Inl e, w\<lparr>files := f1\<rparr>)
      | None \<Rightarrow>
          if f1 profiles_file \<noteq> None
          then (Inr (), w\<lparr>files := f1, stdout := stdout w @ [''profiles.yml found - skipping'']\<rparr>)
          else case open_write (open_error rt) f1 file_path (yaml_dump rt profile) of
                 (Some e, f2) \<Rightarrow>
                   (Inl e, w\<lparr>files := f2,
                              stdout := stdout w @ [''profiles.yml not found - initializing.'']\<rparr>)
               | (None, f2) \<Rightarrow>
                   (Inr (), w\<lparr>files := f2,
                               stdout := stdout w @ [''profiles.yml not found - initializing.'', ''done'']\<rparr>))"
  using assms unfolding create_default_profiles_def
  by (auto simp: exists_directory_path exists_file_path Let_def split: prod.splits option.splits)

lemma cdp_present:
  assumes "wf_fs (files w)" "files w profiles_file \<noteq> None"
  shows "create_default_profiles rt w
           = (Inr (), w\<lparr>stdout := stdout w @ [''profiles.yml found - skipping'']\<rparr>)"
proof -
  from wf_dir_of_file [OF assms] have "files w profiles_dir \<noteq> None" by simp
  from cdp_dir_present [OF this] assms(2) show ?thesis by simp
qed

lemma no_file_prefix_cases:
  assumes "wf_fs f" "\<not> list_ex (\<lambda>a. is_file (f a)) (prefixes profiles_dir)"
  shows "f profiles_dir = None \<or> f profiles_dir = Some Dir"
proof (cases "f profiles_dir")
  case None then show ?thesis by simp
next
  case (Some n)
  with assms(2) show ?thesis by (cases n) (simp_all add: is_file_def)
qed

text \<open>What a run that starts without the profile file does, by its two steps.\<close>

lemma cdp_steps [consumes 2, case_names refused_dir written]:
  assumes "wf_fs (files w)" "files w profiles_file = None"
  obtains (refused_dir) e where "files w profiles_dir = None"
      and "fst (os_makedirs (mkdir_error rt) (files w) directory_path) = Some e"
      and "create_default_profiles rt w
             = (Inl e, w\<lparr>files := snd (os_makedirs (mkdir_error rt) (files w) directory_path)\<rparr>)"
  | (written) f1 m2 f2 where "f1 = with_dirs profiles_dir (files w)"
      and "f1 profiles_file = None" and "f1 profiles_dir \<noteq> None"
      and "\<And>p n. files w p = Some n \<Longrightarrow> f1 p = Some n"
      and "open_write (open_error rt) f1 file_path (yaml_dump rt profile) = (m2, f2)"
      and "create_default_profiles rt w =
             (case m2 of
                Some e \<Rightarrow>
                  (Inl e, w\<lparr>files := f2,
                             stdout := stdout w @ [''profiles.yml not found - initializing.'']\<rparr>)
              | None \<Rightarrow>
                  (Inr (), w\<lparr>files := f2,
                              stdout := stdout w @ [''profiles.yml not found - initializing.'', ''done'']\<rparr>))"
proof (cases "files w profiles_dir = None")
  case False
  obtain m2 f2 where ow: "open_write (open_error rt) (files w) file_path (yaml_dump rt profile) = (m2, f2)"
    by (cases "open_write (open_error rt) (files w) file_path (yaml_dump rt profile)")
  from wf_prefixes_dir [OF assms(1) False] False
  have id: "with_dirs profiles_dir (files w) = files w"
    by (auto simp: with_dirs_def fun_eq_iff)
  show ?thesis
  proof (rule written [of "files w" m2 f2])
    show "files w = with_dirs profiles_dir (files w)" using id by simp
    show "files w profiles_file = None" by (rule assms(2))
    show "files w profiles_dir \<noteq> None" by (rule False)
    show "\<And>p n. files w p = Some n \<Longrightarrow> files w p = Some n" .
    show "open_write (open_error rt) (files w) file_path (yaml_dump rt profile) = (m2, f2)"
      by (rule ow)
    show "create_default_profiles rt w =
             (case m2 of
                Some e \<Rightarrow>
                  (Inl e, w\<lparr>files := f2,
                             stdout := stdout w @ [''profiles.yml not found - initializing.'']\<rparr>)
              | None \<Rightarrow>
                  (Inr (), w\<lparr>files := f2,
                              stdout := stdout w @ [''profiles.yml not found - initializing.'', ''done'']\<rparr>))"
      unfolding cdp_dir_present [OF False] using assms(2) ow by (simp split: option.splits)
  qed
next
  case True
  obtain m f1 where md: "os_makedirs (mkdir_error rt) (files w) directory_path = (m, f1)"
    by (cases "os_makedirs (mkdir_error rt) (files w) directory_path")
  show ?thesis
  proof (cases m)
    case (Some e)
    show ?thesis
    proof (rule refused_dir [of e])
      show "files w profiles_dir = None" by (rule True)
      show "fst (os_makedirs (mkdir_error rt) (files w) directory_path) = Some e"
        using md Some by simp
      show "create_default_profiles rt w
             = (Inl e, w\<lparr>files := snd (os_makedirs (mkdir_error rt) (files w) directory_path)\<rparr>)"
        unfolding cdp_dir_absent [OF True md] using Some md by simp
    qed
  next
    case None
    from md None have f1: "f1 = with_dirs profiles_dir (files w)"
      using makedirs_done [of "mkdir_error rt" "files w" f1] by simp
    obtain m2 f2 where ow: "open_write (open_error rt) f1 file_path (yaml_dump rt profile) = (m2, f2)"
      by (cases "open_write (open_error rt) f1 file_path (yaml_dump rt profile)")
    have nf: "f1 profiles_file = None" unfolding f1 using assms(2) by (simp add: with_dirs_simps)
    show ?thesis
    proof (rule written [of f1 m2 f2])
      show "f1 = with_dirs profiles_dir (files w)" by (rule f1)
      show "f1 profiles_file = None" by (rule nf)
      show "f1 profiles_dir \<noteq> None" unfolding f1 using True by (simp add: with_dirs_simps)
      show "\<And>p n. files w p = Some n \<Longrightarrow> f1 p = Some n" unfolding f1 by (rule with_dirs_keeps)
      show "open_write (open_error rt) f1 file_path (yaml_dump rt profile) = (m2, f2)" by (rule ow)
      show "create_default_profiles rt w =
             (case m2 of
                Some e \<Rightarrow>
                  (Inl e, w\<lparr>files := f2,
                             stdout := stdout w @ [''profiles.yml not found - initializing.'']\<rparr>)
              | None \<Rightarrow>
                  (Inr (), w\<lparr>files := f2,
                              stdout := stdout w @ [''profiles.yml not found - initializing.'', ''done'']\<rparr>))"
        unfolding cdp_dir_absent [OF True md] using None nf ow by (simp split: option.splits)
    qed
  qed
qed

lemma cdp_returns:
  assumes "wf_fs (files w)" "files w profiles_file = None"
    and "fst (create_default_profiles rt w) = Inr ()"
  shows "files (snd (create_default_profiles rt w)) profiles_file
           = Some (File (yaml_dump rt profile))"
    and "files (snd (create_default_profiles rt w)) profiles_dir \<noteq> None"
proof -
  have "files (snd (create_default_profiles rt w)) profiles_file
           = Some (File (yaml_dump rt profile))
        \<and> files (snd (create_default_profiles rt w)) profiles_dir \<noteq> None"
    using assms(1,2)
  proof (cases rule: cdp_steps [where rt = rt])
    case (refused_dir e)
    with assms(3) show ?thesis by simp
  next
    case (written f1 m2 f2)
    from assms(3) written(6) have m2: "m2 = None" by (cases m2) simp_all
    from written(5) m2 have "f2 = f1(profiles_file \<mapsto> File (yaml_dump rt profile))"
      using open_write_returns [of "open_error rt" f1 "yaml_dump rt profile" f2] by simp
    with written(3,6) m2 show ?thesis by simp
  qed
  then show "files (snd (create_default_profiles rt w)) profiles_file
           = Some (File (yaml_dump rt profile))"
    and "files (snd (create_default_profiles rt w)) profiles_dir \<noteq> None" by simp_all
qed

lemma cdp_error:
  assumes "wf_fs (files w)" "fst (create_default_profiles rt w) = Inl e"
  shows "\<exists>n. e = OSError n"
proof (cases "files w profiles_file = None")
  case False
  from cdp_present [OF assms(1) False, of rt] assms(2) show ?thesis by simp
next
  case True
  from assms(1) True show ?thesis
  proof (cases rule: cdp_steps [where rt = rt])
    case (refused_dir e')
    from refused_dir(3) assms(2) have "e' = e" by simp
    with makedirs_error [OF refused_dir(2)] show ?thesis by simp
  next
    case (written f1 m2 f2)
    from assms(2) written(6) have m2: "m2 = Some e" by (cases m2) simp_all
    with written(5) have "fst (open_write (open_error rt) f1 file_path (yaml_dump rt profile)) = Some e"
      by simp
    then show ?thesis by (rule open_write_error)
  qed
qed

lemma cdp_allowed:
  assumes "wf_fs (files w)"
    and "\<not> list_ex (\<lambda>a. is_file (files w a)) (prefixes profiles_dir)"
    and "\<forall>g a. mkdir_error rt g a = None" "\<forall>g a. open_error rt g a = None"
  shows "fst (create_default_profiles rt w) = Inr ()"
proof (cases "files w profiles_file = None")
  case False
  from cdp_present [OF assms(1) False, of rt] show ?thesis by simp
next
  case True
  from assms(1) True show ?thesis
  proof (cases rule: cdp_steps [where rt = rt])
    case (refused_dir e)
    from makedirs_allowed [of "files w" "mkdir_error rt"] refused_dir(1,2) assms(2,3)
    show ?thesis by simp
  next
    case (written f1 m2 f2)
    have "f1 profiles_dir = Some Dir"
    proof (cases "files w profiles_dir")
      case None
      then show ?thesis unfolding written(1) by (simp add: with_dirs_simps)
    next
      case (Some n)
      with no_file_prefix_cases [OF assms(1,2)] have "files w profiles_dir = Some Dir" by simp
      then show ?thesis by (rule written(4))
    qed
    with open_write_allowed [of f1 "open_error rt" "yaml_dump rt profile"] written(2,5) assms(4)
    have "m2 = None" by simp
    with written(6) show ?thesis by simp
  qed
qed

lemma cdp_keeps:
  assumes "wf_fs (files w)" "files w p = Some n"
  shows "files (snd (create_default_profiles rt w)) p = Some n"
proof (cases "files w profiles_file = None")
  case False
  from cdp_present [OF assms(1) False, of rt] assms(2) show ?thesis by simp
next
  case True
  from assms(1) True show ?thesis
  proof (cases rule: cdp_steps [where rt = rt])
    case (refused_dir e)
    from makedirs_keeps [of "files w" p n "mkdir_error rt"] assms(2) refused_dir(3)
    show ?thesis by simp
  next
    case (written f1 m2 f2)
    from assms(2) have "f1 p = Some n" by (rule written(4))
    with open_write_keeps [of f1 p n "open_error rt" "yaml_dump rt profile"] written(2,5)
    have "f2 p = Some n" by simp
    with written(6) show ?thesis by (cases m2) simp_all
  qed
qed

lemma cdp_again:
  assumes "wf_fs (files w)" "fst (create_default_profiles rt w) = Inr ()"
  shows "create_default_profiles rt (snd (create_default_profiles rt w))
           = (Inr (), (snd (create_default_profiles rt w))
                \<lparr>stdout := stdout (snd (create_default_profiles rt w))
                              @ [''profiles.yml found - skipping'']\<rparr>)"
proof -
  let ?w1 = "snd (create_default_profiles rt w)"
  have "files ?w1 profiles_dir \<noteq> None \<and> files ?w1 profiles_file \<noteq> None"
  proof (cases "files w profiles_file = None")
    case False
    from cdp_present [OF assms(1) False, of rt] wf_dir_of_file [OF assms(1) False] False
    show ?thesis by simp
  next
    case True
    from cdp_returns [OF assms(1) True assms(2)] show ?thesis by simp
  qed
  then have d: "files ?w1 profiles_dir \<noteq> None" and f: "files ?w1 profiles_file \<noteq> None"
    by simp_all
  from cdp_dir_present [OF d, of rt] f show ?thesis by simp
qed

section \<open>Flags, command and preparation of the run\<close>

lemma value_step:
  "(if of_optional v \<noteq> PyNone then fl @ [n, str (of_optional v)] else fl) = fl @ flag_pair n v"
  by (cases v) (simp_all add: of_optional_def flag_pair_def)

lemma value_flag_steps:
  "value_flag_step self ''project_dir'' fl = fl @ flag_pair ''--project-dir'' (project_dir self)"
  "value_flag_step self ''select'' fl = fl @ flag_pair ''--select'' (select self)"
  "value_flag_step self ''exclude'' fl = fl @ flag_pair ''--exclude'' (exclude self)"
  "value_flag_step self ''selector'' fl = fl @ flag_pair ''--selector'' (selector self)"
  "value_flag_step self ''vars'' fl = fl @ flag_pair ''--vars'' (vars self)"
  "value_flag_step self ''models'' fl = fl @ flag_pair ''--models'' (models self)"
  by (simp_all add: value_flag_step_def getattribute_def replace_def value_step)

lemma boolean_flag_steps:
  "boolean_flag_step self ''no_version_check'' fl = fl @ bare_flag ''--no-version-check'' (no_version_check self)"
  "boolean_flag_step self ''cache_selected_only'' fl = fl @ bare_flag ''--cache-selected-only'' (cache_selected_only self)"
  "boolean_flag_step self ''fail_fast'' fl = fl @ bare_flag ''--fail-fast'' (fail_fast self)"
  "boolean_flag_step self ''quiet'' fl = fl @ bare_flag ''--quiet'' (quiet self)"
  "boolean_flag_step self ''warn_error'' fl = fl @ bare_flag ''--warn-error'' (warn_error self)"
  by (simp_all add: boolean_flag_step_def getattribute_def replace_def bare_flag_def)

lemma add_global_flags_spec: "add_global_flags self = spec_flags self"
  unfolding add_global_flags_def global_flags_def global_boolean_flags_def spec_flags_def Let_def
  by (simp only: fold_simps value_flag_steps boolean_flag_steps append_Nil append_assoc id_apply)

lemma build_command_cases:
  "build_command rt f self =
     (case project_dir self of
        None \<Rightarrow> Inr ([Some (resolved_dbt rt), base_cmd self] @ map Some (add_global_flags self))
      | Some d \<Rightarrow>
          if \<not> os_path_exists f d
          then Inl (AirflowException (''Can not find the project_dir: '' @ d))
          else if \<not> os_path_isdir f d
          then Inl (AirflowException (''The project_dir '' @ d @ '' must be a directory''))
          else Inr ([Some (resolved_dbt rt), base_cmd self] @ map Some (add_global_flags self)))"
  by (simp add: build_command_def get_dbt_path_def Let_def split: option.splits)

lemma build_command_Inr:
  assumes "build_command rt f self = Inr cmd"
  shows "cmd = [Some (resolved_dbt rt), base_cmd self] @ map Some (add_global_flags self)"
  using assms by (auto simp: build_command_cases split: option.splits if_splits)

lemma isdir_exists: "os_path_isdir f d \<Longrightarrow> os_path_exists f d"
  by (simp add: os_path_isdir_def os_path_exists_def)

lemma map_profile_Inr:
  assumes "map_profile rt self w = (Inr (prof, pv), w')"
  shows "prof = ''postgres_profile'' \<and> w' = w
         \<and> (\<exists>conn. get_connection rt (conn_id self) = Inr conn \<and> conn_type conn = ''postgres''
              \<and> pv = profile_vars conn self)"
  using assms
  by (auto simp: map_profile_def split: sum.splits if_splits option.splits)

lemma execute_prepare_Inr:
  assumes "execute_prepare rt self context w = (Inr (cmd, e), w')"
  shows "cmd = [Some (resolved_dbt rt), base_cmd self] @ map Some (add_global_flags self)
                 @ [Some ''--profile'', Some ''postgres_profile'']"
    and "\<exists>conn. get_connection rt (conn_id self) = Inr conn \<and> conn_type conn = ''postgres''
           \<and> e = get_env rt self context ++ profile_vars conn self"
    and "w' = snd (create_default_profiles rt w)"
    and "fst (create_default_profiles rt w) = Inr ()"
proof -
  obtain r1 w1 where c: "create_default_profiles rt w = (r1, w1)" by (cases "create_default_profiles rt w")
  from assms c have r1: "r1 = Inr ()"
    by (cases r1) (simp_all add: execute_prepare_def)
  obtain r2 w2 where m: "map_profile rt self w1 = (r2, w2)" by (cases "map_profile rt self w1")
  from assms c r1 m obtain prof pv where r2: "r2 = Inr (prof, pv)"
    by (cases r2) (auto simp: execute_prepare_def)
  from map_profile_Inr [OF m [unfolded r2]]
  obtain conn where p: "prof = ''postgres_profile''" "w2 = w1"
    "get_connection rt (conn_id self) = Inr conn" "conn_type conn = ''postgres''"
    "pv = profile_vars conn self" by blast
  from assms c r1 m r2 obtain bc where b: "build_command rt (files w2) self = Inr bc"
    by (cases "build_command rt (files w2) self") (auto simp: execute_prepare_def Let_def)
  from assms c r1 m r2 b have res: "cmd = bc @ [Some ''--profile'', Some prof]"
    "e = get_env rt self context ++ pv" "w' = w2"
    by (auto simp: execute_prepare_def Let_def)
  show "cmd = [Some (resolved_dbt rt), base_cmd self] @ map Some (add_global_flags self)
                 @ [Some ''--profile'', Some ''postgres_profile'']"
    using res(1) build_command_Inr [OF b] p(1) by simp
  show "\<exists>conn. get_connection rt (conn_id self) = Inr conn \<and> conn_type conn = ''postgres''
           \<and> e = get_env rt self context ++ profile_vars conn self"
    using res(2) p by blast
  show "w' = snd (create_default_profiles rt w)" using res(3) p(2) c by simp
  show "fst (create_default_profiles rt w) = Inr ()" using c r1 by simp
qed

lemma execute_prepare_success:
  assumes "fst (create_default_profiles rt w) = Inr ()"
    and "get_connection rt (conn_id self) = Inr conn"
    and "conn_type conn = ''postgres''"
    and "build_command rt (files (snd (create_default_profiles rt w))) self = Inr bc"
  shows "execute_prepare rt self context w
           = (Inr (bc @ [Some ''--profile'', Some ''postgres_profile''],
                   get_env rt self context ++ profile_vars conn self),
              snd (create_default_profiles rt w))"
proof -
  obtain w1 where c: "create_default_profiles rt w = (Inr (), w1)"
    using assms(1) by (cases "create_default_profiles rt w") auto
  have m: "map_profile rt self w1 = (Inr (''postgres_profile'', profile_vars conn self), w1)"
    using assms(2,3) by (simp add: map_profile_def)
  show ?thesis using c m assms(4) by (simp add: execute_prepare_def Let_def)
qed

section \<open>The concrete runs evaluated\<close>

lemma wf_example_files: "wf_fs example_files"
  by (auto simp: wf_fs_def example_files_def)

lemma wf_files_with_profile: "wf_fs files_with_profile"
  by (auto simp: wf_fs_def files_with_profile_def)

lemma example_files_x: "os_path_isdir example_files ''/x''"
  by (simp add: os_path_isdir_def example_files_def)

lemma example_flags:
  "spec_flags example_operator = [''--project-dir'', ''/x'', ''--select'', ''tag:a'', ''--fail-fast'']"
  by (simp add: spec_flags_def example_operator_def DBTBaseOperator_def flag_pair_def bare_flag_def)

lemma example_create:
  "fst (create_default_profiles example_runtime example_world) = Inr ()"
  "os_path_isdir (files (snd (create_default_profiles example_runtime example_world))) ''/x''"
proof -
  have w: "wf_fs (files example_world)" by (simp add: example_world_def wf_example_files)
  have a: "files example_world profiles_file = None"
    by (simp add: example_world_def example_files_def)
  have n: "\<not> list_ex (\<lambda>a. is_file (files example_world a)) (prefixes profiles_dir)"
    by (simp add: example_world_def example_files_def is_file_def)
  have m: "\<forall>g a. mkdir_error example_runtime g a = None"
    and o: "\<forall>g a. open_error example_runtime g a = None"
    by (simp_all add: example_runtime_def)
  show "fst (create_default_profiles example_runtime example_world) = Inr ()"
    by (rule cdp_allowed [OF w n m o])
  have "files example_world [''x''] = Some Dir" by (simp add: example_world_def example_files_def)
  from cdp_keeps [OF w this, of example_runtime]
  show "os_path_isdir (files (snd (create_default_profiles example_runtime example_world))) ''/x''"
    by (simp add: os_path_isdir_def)
qed

lemma example_prepare:
  "execute_prepare example_runtime example_operator Map.empty example_world
     = (Inr ([Some ''/usr/local/bin/dbt'', Some ''run'', Some ''--project-dir'', Some ''/x'',
              Some ''--select'', Some ''tag:a'', Some ''--fail-fast'',
              Some ''--profile'', Some ''postgres_profile''],
             get_env example_runtime example_operator Map.empty
               ++ profile_vars example_connection example_operator),
        snd (create_default_profiles example_runtime example_world))"
proof -
  have pd: "project_dir example_operator = Some ''/x''" "base_cmd example_operator = Some ''run''"
    by (simp_all add: example_operator_def DBTBaseOperator_def)
  have bc: "build_command example_runtime
              (files (snd (create_default_profiles example_runtime example_world))) example_operator
            = Inr [Some ''/usr/local/bin/dbt'', Some ''run'', Some ''--project-dir'', Some ''/x'',
                   Some ''--select'', Some ''tag:a'', Some ''--fail-fast'']"
    using example_create(2) isdir_exists [OF example_create(2)]
    by (simp add: build_command_cases pd add_global_flags_spec example_flags
          resolved_dbt_def example_runtime_def)
  have gc: "get_connection example_runtime (conn_id example_operator) = Inr example_connection"
    by (simp add: example_runtime_def)
  have ct: "conn_type example_connection = ''postgres''" by (simp add: example_connection_def)
  show ?thesis
    using execute_prepare_success [OF example_create(1) gc ct bc, of Map.empty] by simp
qed

section \<open>Claims about the command line\<close>

text \<open>
  Claim C1. For every operator configuration, the command line that \<^verbatim>\<open>execute\<close> assembles
  lists the value-carrying flags in the order \<^verbatim>\<open>--project-dir\<close>, \<^verbatim>\<open>--select\<close>,
  \<^verbatim>\<open>--exclude\<close>, \<^verbatim>\<open>--selector\<close>, \<^verbatim>\<open>--vars\<close>, \<^verbatim>\<open>--models\<close>, each as a pair of flag and
  value and only when its field is not \<^verbatim>\<open>None\<close>; then the boolean flags
  \<^verbatim>\<open>--no-version-check\<close>, \<^verbatim>\<open>--cache-selected-only\<close>, \<^verbatim>\<open>--fail-fast\<close>, \<^verbatim>\<open>--quiet\<close>,
  \<^verbatim>\<open>--warn-error\<close>, each bare and only when its field is \<^verbatim>\<open>True\<close>; and the last two tokens
  are \<^verbatim>\<open>--profile\<close> and the profile name. The flag loops compute \<open>spec_flags\<close>, and every
  command that \<^verbatim>\<open>execute\<close> hands to the subprocess is the executable, the base command,
  these flags and the profile pair.
\<close>

theorem command_line_order:
  "add_global_flags self = spec_flags self
   \<and> (\<forall>cmd e w'. execute_prepare rt self context w = (Inr (cmd, e), w')
        \<longrightarrow> cmd = [Some (resolved_dbt rt), base_cmd self] @ map Some (spec_flags self)
                    @ [Some ''--profile'', Some ''postgres_profile''])"
proof (intro conjI allI impI)
  show "add_global_flags self = spec_flags self" by (rule add_global_flags_spec)
next
  fix cmd e w'
  assume "execute_prepare rt self context w = (Inr (cmd, e), w')"
  from execute_prepare_Inr(1) [OF this]
  show "cmd = [Some (resolved_dbt rt), base_cmd self] @ map Some (spec_flags self)
                @ [Some ''--profile'', Some ''postgres_profile'']"
    by (simp add: add_global_flags_spec)
qed

theorem command_line_order_witness:
  "execute_prepare example_runtime example_operator Map.empty example_world
     = (Inr ([Some ''/usr/local/bin/dbt'', Some ''run'', Some ''--project-dir'', Some ''/x'',
              Some ''--select'', Some ''tag:a'', Some ''--fail-fast'',
              Some ''--profile'', Some ''postgres_profile''],
             get_env example_runtime example_operator Map.empty
               ++ profile_vars example_connection example_operator),
        snd (create_default_profiles example_runtime example_world))
   \<and> [Some ''/usr/local/bin/dbt'', Some ''run'', Some ''--project-dir'', Some ''/x'',
       Some ''--select'', Some ''tag:a'', Some ''--fail-fast'',
       Some ''--profile'', Some ''postgres_profile'']
     = [Some (resolved_dbt example_runtime), base_cmd example_operator]
         @ map Some (spec_flags example_operator)
         @ [Some ''--profile'', Some ''postgres_profile'']
   \<and> add_global_flags example_operator
       = [''--project-dir'', ''/x'', ''--select'', ''tag:a'', ''--fail-fast'']"
  using command_line_order [of example_operator example_runtime Map.empty example_world]
    example_prepare example_flags
  by simp

lemma example_flags_general:
  assumes "project_dir self = Some ''/x''" and "select self = Some ''tag:a''" and "fail_fast self"
    and "exclude self = None" and "selector self = None" and "vars self = None"
    and "models self = None" and "\<not> no_version_check self" and "\<not> cache_selected_only self"
    and "\<not> quiet self" and "\<not> warn_error self"
  shows "add_global_flags self = [''--project-dir'', ''/x'', ''--select'', ''tag:a'', ''--fail-fast'']"
  unfolding add_global_flags_spec spec_flags_def flag_pair_def bare_flag_def
  using assms by simp

text \<open>
  Claim C5. For an operator with \<^verbatim>\<open>project_dir="/x"\<close>, \<^verbatim>\<open>select="tag:a"\<close>,
  \<^verbatim>\<open>fail_fast=True\<close> and every other flag field at its default, the flags are exactly
  \<^verbatim>\<open>--project-dir /x --select tag:a --fail-fast\<close>, and the command that \<^verbatim>\<open>build_command\<close>
  assembles is the executable, the base command and these five tokens, in this order and with
  nothing else: it is assembled whenever \<^verbatim>\<open>/x\<close> is a directory, and no other list is ever
  returned.
\<close>

theorem example_command_tokens:
  assumes "project_dir self = Some ''/x''" and "select self = Some ''tag:a''" and "fail_fast self"
    and "exclude self = None" and "selector self = None" and "vars self = None"
    and "models self = None" and "\<not> no_version_check self" and "\<not> cache_selected_only self"
    and "\<not> quiet self" and "\<not> warn_error self"
  shows "add_global_flags self = [''--project-dir'', ''/x'', ''--select'', ''tag:a'', ''--fail-fast'']
    \<and> (os_path_isdir f ''/x'' \<longrightarrow>
         build_command rt f self
           = Inr [Some (resolved_dbt rt), base_cmd self, Some ''--project-dir'', Some ''/x'',
                  Some ''--select'', Some ''tag:a'', Some ''--fail-fast''])
    \<and> (\<forall>cmd. build_command rt f self = Inr cmd \<longrightarrow>
           cmd = [Some (resolved_dbt rt), base_cmd self, Some ''--project-dir'', Some ''/x'',
                  Some ''--select'', Some ''tag:a'', Some ''--fail-fast''])"
proof (intro conjI impI allI)
  show fl: "add_global_flags self = [''--project-dir'', ''/x'', ''--select'', ''tag:a'', ''--fail-fast'']"
    by (rule example_flags_general [OF assms])
  {
    assume d: "os_path_isdir f ''/x''"
    have e: "os_path_exists f ''/x''" by (rule isdir_exists [OF d])
    show "build_command rt f self
           = Inr [Some (resolved_dbt rt), base_cmd self, Some ''--project-dir'', Some ''/x'',
                  Some ''--select'', Some ''tag:a'', Some ''--fail-fast'']"
      unfolding build_command_cases fl using assms(1) d e by simp
  }
  {
    fix cmd assume "build_command rt f self = Inr cmd"
    from build_command_Inr [OF this]
    show "cmd = [Some (resolved_dbt rt), base_cmd self, Some ''--project-dir'', Some ''/x'',
                  Some ''--select'', Some ''tag:a'', Some ''--fail-fast'']"
      unfolding fl by simp
  }
qed


theorem example_command_tokens_witness:
  "project_dir example_operator = Some ''/x'' \<and> select example_operator = Some ''tag:a''
   \<and> fail_fast example_operator \<and> exclude example_operator = None
   \<and> selector example_operator = None \<and> vars example_operator = None
   \<and> models example_operator = None \<and> \<not> no_version_check example_operator
   \<and> \<not> cache_selected_only example_operator \<and> \<not> quiet example_operator
   \<and> \<not> warn_error example_operator \<and> os_path_isdir example_files ''/x''
   \<and> build_command example_runtime example_files example_operator
       = Inr [Some (resolved_dbt example_runtime), base_cmd example_operator,
              Some ''--project-dir'', Some ''/x'',
              Some ''--select'', Some ''tag:a'', Some ''--fail-fast'']"
proof -
  have h: "project_dir example_operator = Some ''/x''" "select example_operator = Some ''tag:a''"
    "fail_fast example_operator" "exclude example_operator = None"
    "selector example_operator = None" "vars example_operator = None"
    "models example_operator = None" "\<not> no_version_check example_operator"
    "\<not> cache_selected_only example_operator" "\<not> quiet example_operator"
    "\<not> warn_error example_operator"
    by (simp_all add: example_operator_def DBTBaseOperator_def)
  note t = example_command_tokens [OF h, of example_files example_runtime]
  have "build_command example_runtime example_files example_operator
       = Inr [Some (resolved_dbt example_runtime), base_cmd example_operator,
              Some ''--project-dir'', Some ''/x'',
              Some ''--select'', Some ''tag:a'', Some ''--fail-fast'']"
    by (rule mp [OF conjunct1 [OF conjunct2 [OF t]] example_files_x])
  with h example_files_x show ?thesis by (intro conjI)
qed

section \<open>Claims about errors of the build\<close>

lemma build_command_error_iff:
  "(\<exists>m. build_command rt f self = Inl (AirflowException m))
     \<longleftrightarrow> (\<exists>d. project_dir self = Some d
               \<and> (\<not> os_path_exists f d \<or> (os_path_exists f d \<and> \<not> os_path_isdir f d)))"
  unfolding build_command_cases by (cases "project_dir self") auto

lemma build_command_error_kind:
  "build_command rt f self = Inl e \<Longrightarrow> \<exists>m. e = AirflowException m"
  unfolding build_command_cases by (cases "project_dir self") (auto split: if_splits)

lemma build_command_first_token:
  "\<not> (\<exists>d. project_dir self = Some d
         \<and> (\<not> os_path_exists f d \<or> (os_path_exists f d \<and> \<not> os_path_isdir f d)))
   \<Longrightarrow> \<exists>rest. build_command rt f self = Inr (Some (resolved_dbt rt) # rest)"
  unfolding build_command_cases by (cases "project_dir self") auto

text \<open>
  Claim C8. Building the command raises an error exactly when the configured project path
  does not exist or exists without being a directory, and the error is an
  \<^verbatim>\<open>AirflowException\<close> raised by \<^verbatim>\<open>get_dbt_path\<close> while the command is built; in every other
  case the build succeeds and its first token is the resolved dbt executable.
\<close>

theorem project_dir_errors:
  "((\<exists>m. build_command rt f self = Inl (AirflowException m))
      \<longleftrightarrow> (\<exists>d. project_dir self = Some d
                \<and> (\<not> os_path_exists f d \<or> (os_path_exists f d \<and> \<not> os_path_isdir f d))))
   \<and> (\<forall>e. build_command rt f self = Inl e \<longrightarrow> (\<exists>m. e = AirflowException m))
   \<and> (\<not> (\<exists>d. project_dir self = Some d
                \<and> (\<not> os_path_exists f d \<or> (os_path_exists f d \<and> \<not> os_path_isdir f d)))
        \<longrightarrow> (\<exists>rest. build_command rt f self = Inr (Some (resolved_dbt rt) # rest)))"
proof (intro conjI allI impI)
  show "(\<exists>m. build_command rt f self = Inl (AirflowException m))
      \<longleftrightarrow> (\<exists>d. project_dir self = Some d
                \<and> (\<not> os_path_exists f d \<or> (os_path_exists f d \<and> \<not> os_path_isdir f d)))"
    by (rule build_command_error_iff)
next
  fix e assume "build_command rt f self = Inl e"
  then show "\<exists>m. e = AirflowException m" by (rule build_command_error_kind)
next
  assume "\<not> (\<exists>d. project_dir self = Some d
         \<and> (\<not> os_path_exists f d \<or> (os_path_exists f d \<and> \<not> os_path_isdir f d)))"
  then show "\<exists>rest. build_command rt f self = Inr (Some (resolved_dbt rt) # rest)"
    by (rule build_command_first_token)
qed


theorem project_dir_errors_witness:
  "(\<exists>m. build_command example_runtime example_files
          (example_operator\<lparr>project_dir := Some ''/nowhere''\<rparr>) = Inl (AirflowException m))
   \<and> (\<exists>m. build_command example_runtime files_obstructed
          (example_operator\<lparr>project_dir := Some ''/home/astro/.dbt''\<rparr>) = Inl (AirflowException m))
   \<and> (\<exists>rest. build_command example_runtime example_files example_operator
          = Inr (Some (resolved_dbt example_runtime) # rest))"
proof (intro conjI)
  have a: "\<not> os_path_exists example_files ''/nowhere''"
    by (simp add: os_path_exists_def example_files_def)
  have "\<exists>d. project_dir (example_operator\<lparr>project_dir := Some ''/nowhere''\<rparr>) = Some d
          \<and> (\<not> os_path_exists example_files d
               \<or> (os_path_exists example_files d \<and> \<not> os_path_isdir example_files d))"
    using a by (intro exI [of _ "''/nowhere''"]) simp
  then show "\<exists>m. build_command example_runtime example_files
          (example_operator\<lparr>project_dir := Some ''/nowhere''\<rparr>) = Inl (AirflowException m)"
    by (rule iffD2 [OF conjunct1 [OF project_dir_errors]])
next
  have b: "os_path_exists files_obstructed ''/home/astro/.dbt''"
    "\<not> os_path_isdir files_obstructed ''/home/astro/.dbt''"
    by (simp_all add: os_path_exists_def os_path_isdir_def files_obstructed_def)
  have "\<exists>d. project_dir (example_operator\<lparr>project_dir := Some ''/home/astro/.dbt''\<rparr>) = Some d
          \<and> (\<not> os_path_exists files_obstructed d
               \<or> (os_path_exists files_obstructed d \<and> \<not> os_path_isdir files_obstructed d))"
    using b by (intro exI [of _ "''/home/astro/.dbt''"]) simp
  then show "\<exists>m. build_command example_runtime files_obstructed
          (example_operator\<lparr>project_dir := Some ''/home/astro/.dbt''\<rparr>) = Inl (AirflowException m)"
    by (rule iffD2 [OF conjunct1 [OF project_dir_errors]])
next
  have c: "project_dir example_operator = Some ''/x''"
    by (simp add: example_operator_def DBTBaseOperator_def)
  have "\<not> (\<exists>d. project_dir example_operator = Some d
          \<and> (\<not> os_path_exists example_files d
               \<or> (os_path_exists example_files d \<and> \<not> os_path_isdir example_files d)))"
    unfolding c using example_files_x isdir_exists [OF example_files_x] by simp
  then show "\<exists>rest. build_command example_runtime example_files example_operator
          = Inr (Some (resolved_dbt example_runtime) # rest)"
    by (rule mp [OF conjunct2 [OF conjunct2 [OF project_dir_errors]]])
qed

section \<open>Claims about the exit code\<close>

lemma exception_handling_cases:
  "exception_handling self r =
     (if skip_exit_code self = Some (exit_code r)
      then Inl (AirflowSkipException
             (''dbt command returned exit code '' @ str_int (exit_code r) @ ''. Skipping.''))
      else if exit_code r \<noteq> 0
      then Inl (AirflowException
             (''dbt command failed. The command returned a non-zero exit code ''
              @ str_int (exit_code r) @ ''.''))
      else Inr ())"
  unfolding exception_handling_def by (cases "skip_exit_code self") auto

text \<open>
  Claim C10. When the operator was constructed with \<^verbatim>\<open>skip_exit_code=None\<close> the skip
  classification is off: every non-zero exit code (99 included) raises the failure signal, no
  exit code raises the skip signal, and exit code zero raises nothing.
\<close>

theorem no_skip_code:
  assumes "skip_exit_code self = None"
  shows "(exit_code r \<noteq> 0 \<longrightarrow>
            exception_handling self r
              = Inl (AirflowException
                  (''dbt command failed. The command returned a non-zero exit code ''
                   @ str_int (exit_code r) @ ''.'')))
         \<and> (\<forall>m. exception_handling self r \<noteq> Inl (AirflowSkipException m))
         \<and> (exit_code r = 0 \<longrightarrow> exception_handling self r = Inr ())"
  unfolding exception_handling_cases assms by simp

theorem no_skip_code_witness:
  "skip_exit_code (example_operator\<lparr>skip_exit_code := None\<rparr>) = None
   \<and> exit_code \<lparr>exit_code = 99, output_text = ''''\<rparr> \<noteq> 0
   \<and> exception_handling (example_operator\<lparr>skip_exit_code := None\<rparr>)
        \<lparr>exit_code = 99, output_text = ''''\<rparr>
       = Inl (AirflowException
           (''dbt command failed. The command returned a non-zero exit code ''
            @ str_int (exit_code \<lparr>exit_code = 99, output_text = ''''\<rparr>) @ ''.''))"
proof (intro conjI)
  show n: "skip_exit_code (example_operator\<lparr>skip_exit_code := None\<rparr>) = None" by simp
  show z: "exit_code \<lparr>exit_code = 99, output_text = ''''\<rparr> \<noteq> 0" by simp
  show "exception_handling (example_operator\<lparr>skip_exit_code := None\<rparr>)
        \<lparr>exit_code = 99, output_text = ''''\<rparr>
       = Inl (AirflowException
           (''dbt command failed. The command returned a non-zero exit code ''
            @ str_int (exit_code \<lparr>exit_code = 99, output_text = ''''\<rparr>) @ ''.''))"
    by (rule mp [OF conjunct1 [OF no_skip_code [OF n]] z])
qed


lemma str_int_0: "str_int 0 = ''0''"
  by (simp add: str_int_def string_of_nat.simps digit_def)

lemma str_int_5432: "str_int 5432 = ''5432''"
  by (simp add: str_int_def string_of_nat.simps digit_def)

lemma execute_after_prepare:
  assumes "execute_prepare rt self context w = (Inr (cmd, e), w1)"
  shows "execute rt self context w =
     (case exception_handling self (subprocess_run rt cmd e (output_encoding self) (project_dir self)) of
        Inl err \<Rightarrow> (Inl err, w1)
      | Inr _ \<Rightarrow> (Inr (output_text
            (subprocess_run rt cmd e (output_encoding self) (project_dir self))), w1))"
  unfolding execute_def run_command_def Let_def assms
  by (simp split: sum.splits)

text \<open>
  Claim C2, as stated: an exit code equal to the configured skip code raises the skip signal,
  any other non-zero exit code raises the failure signal, and exit code zero raises nothing,
  \<^verbatim>\<open>execute\<close> then returning the captured output. The last part fails when the configured
  skip code is itself 0: the skip test comes first, so exit code zero raises the skip signal.
\<close>

theorem skip_code_zero_counterexample:
  "exception_handling (example_operator\<lparr>skip_exit_code := Some 0\<rparr>)
       \<lparr>exit_code = 0, output_text = ''Done.''\<rparr>
     = Inl (AirflowSkipException ''dbt command returned exit code 0. Skipping.'')
   \<and> run_command example_runtime (example_operator\<lparr>skip_exit_code := Some 0\<rparr>) [] Map.empty
     = Inl (AirflowSkipException ''dbt command returned exit code 0. Skipping.'')"
  by (simp add: exception_handling_cases run_command_def example_runtime_def str_int_0)

text \<open>
  Claim C2, amended. The classification tests the skip code first: an exit code equal to the
  configured skip code (99 by default) raises the skip signal, also when that code is 0;
  otherwise a non-zero exit code raises the failure signal; otherwise, at exit code zero,
  nothing is raised. Whenever \<^verbatim>\<open>execute\<close> reaches the subprocess, it raises what the
  classification raises, and returns the captured output of the subprocess when nothing is
  raised.
\<close>

theorem exit_code_classification:
  "exception_handling self r =
     (if skip_exit_code self = Some (exit_code r)
      then Inl (AirflowSkipException
             (''dbt command returned exit code '' @ str_int (exit_code r) @ ''. Skipping.''))
      else if exit_code r \<noteq> 0
      then Inl (AirflowException
             (''dbt command failed. The command returned a non-zero exit code ''
              @ str_int (exit_code r) @ ''.''))
      else Inr ())
   \<and> (\<forall>cmd e w1. execute_prepare rt self context w = (Inr (cmd, e), w1) \<longrightarrow>
        execute rt self context w =
          (case exception_handling self
                  (subprocess_run rt cmd e (output_encoding self) (project_dir self)) of
             Inl err \<Rightarrow> (Inl err, w1)
           | Inr _ \<Rightarrow> (Inr (output_text
                 (subprocess_run rt cmd e (output_encoding self) (project_dir self))), w1)))
   \<and> skip_exit_code (DBTBaseOperator pd cid) = Some 99"
proof (intro conjI allI impI)
  show "exception_handling self r =
     (if skip_exit_code self = Some (exit_code r)
      then Inl (AirflowSkipException
             (''dbt command returned exit code '' @ str_int (exit_code r) @ ''. Skipping.''))
      else if exit_code r \<noteq> 0
      then Inl (AirflowException
             (''dbt command failed. The command returned a non-zero exit code ''
              @ str_int (exit_code r) @ ''.''))
      else Inr ())"
    by (rule exception_handling_cases)
next
  fix cmd e w1
  assume "execute_prepare rt self context w = (Inr (cmd, e), w1)"
  then show "execute rt self context w =
          (case exception_handling self
                  (subprocess_run rt cmd e (output_encoding self) (project_dir self)) of
             Inl err \<Rightarrow> (Inl err, w1)
           | Inr _ \<Rightarrow> (Inr (output_text
                 (subprocess_run rt cmd e (output_encoding self) (project_dir self))), w1))"
    by (rule execute_after_prepare)
next
  show "skip_exit_code (DBTBaseOperator pd cid) = Some 99"
    by (simp add: DBTBaseOperator_def)
qed

theorem exit_code_classification_witness:
  "execute example_runtime example_operator Map.empty example_world
     = (Inr ''Done.'', snd (create_default_profiles example_runtime example_world))"
proof -
  note t = conjunct1 [OF conjunct2 [OF exit_code_classification
             [of example_operator _ example_runtime Map.empty example_world]]]
  note u = mp [OF spec [OF spec [OF spec [OF t]]] example_prepare]
  have s: "skip_exit_code example_operator = Some 99"
    by (simp add: example_operator_def DBTBaseOperator_def)
  have r: "subprocess_run example_runtime c e enc d = \<lparr>exit_code = 0, output_text = ''Done.''\<rparr>"
    for c e enc d by (simp add: example_runtime_def)
  have h: "exception_handling example_operator \<lparr>exit_code = 0, output_text = ''Done.''\<rparr> = Inr ()"
    unfolding exception_handling_cases s by simp
  show ?thesis unfolding u r h by simp
qed

section \<open>Claims about the profile file\<close>

lemma readonly_refused:
  "create_default_profiles readonly_runtime example_world
     = (Inl (OSError ''PermissionError''), example_world)"
proof -
  have d: "files example_world profiles_dir = None"
    by (simp add: example_world_def example_files_def)
  have r: "mkdir_error readonly_runtime = (\<lambda>f a. Some ''PermissionError'')"
    by (simp add: readonly_runtime_def)
  have md: "os_makedirs (mkdir_error readonly_runtime) (files example_world) directory_path
              = (Some (OSError ''PermissionError''), files example_world)"
    unfolding makedirs_directory_path r
    by (simp add: mkdir_missing.simps example_world_def example_files_def is_file_def)
  show ?thesis unfolding cdp_dir_absent [OF d md] by simp
qed

text \<open>
  Claim C6. The profile file \<^verbatim>\<open>/home/astro/.dbt/profiles.yml\<close> is written only when it does
  not already exist. On a well-formed file system, and whatever the operating system
  refuses: if the file exists before \<^verbatim>\<open>create_default_profiles\<close> runs, the call returns and
  the file system is unchanged; if the file does not exist, the call either raises the
  \<^verbatim>\<open>OSError\<close> of \<^verbatim>\<open>os.makedirs\<close> or \<^verbatim>\<open>open\<close>, which the function does not catch, or returns
  with the file holding the default postgres profile; it does return when no component of
  the directory path is a regular file and the operating system refuses nothing; whether it
  returns or raises, nothing that exists before is replaced; and after a call that returned, a
  second call returns and leaves the file system as the first one left it.
\<close>

theorem default_profile_written_once:
  assumes "wf_fs (files w)"
  shows "(os_path_exists (files w) file_path \<longrightarrow>
            fst (create_default_profiles rt w) = Inr ()
            \<and> files (snd (create_default_profiles rt w)) = files w)
     \<and> (\<not> os_path_exists (files w) file_path \<longrightarrow>
            (\<exists>e. fst (create_default_profiles rt w) = Inl (OSError e))
            \<or> fst (create_default_profiles rt w) = Inr ()
              \<and> files (snd (create_default_profiles rt w)) (split_path [] file_path)
                  = Some (File (yaml_dump rt profile)))
     \<and> (\<not> list_ex (\<lambda>a. is_file (files w a)) (prefixes (split_path [] directory_path))
          \<and> (\<forall>f a. mkdir_error rt f a = None) \<and> (\<forall>f a. open_error rt f a = None) \<longrightarrow>
            fst (create_default_profiles rt w) = Inr ())
     \<and> (\<forall>p n. files w p = Some n \<longrightarrow> files (snd (create_default_profiles rt w)) p = Some n)
     \<and> (fst (create_default_profiles rt w) = Inr () \<longrightarrow>
            fst (create_default_profiles rt (snd (create_default_profiles rt w))) = Inr ()
            \<and> files (snd (create_default_profiles rt (snd (create_default_profiles rt w))))
                = files (snd (create_default_profiles rt w)))"
proof (intro conjI allI impI)
  assume "os_path_exists (files w) file_path"
  then have p: "files w profiles_file \<noteq> None" by (simp add: exists_file_path)
  show "fst (create_default_profiles rt w) = Inr ()"
    and "files (snd (create_default_profiles rt w)) = files w"
    unfolding cdp_present [OF assms p] by simp_all
next
  assume "\<not> os_path_exists (files w) file_path"
  then have n: "files w profiles_file = None" by (simp add: exists_file_path)
  show "(\<exists>e. fst (create_default_profiles rt w) = Inl (OSError e))
        \<or> fst (create_default_profiles rt w) = Inr ()
          \<and> files (snd (create_default_profiles rt w)) (split_path [] file_path)
              = Some (File (yaml_dump rt profile))"
  proof (cases "fst (create_default_profiles rt w)")
    case (Inl e)
    from cdp_error [OF assms Inl] obtain m where "e = OSError m" ..
    with Inl show ?thesis by simp
  next
    case (Inr u)
    then have r: "fst (create_default_profiles rt w) = Inr ()" by simp
    from cdp_returns(1) [OF assms n r] r show ?thesis unfolding split_file_path by simp
  qed
next
  assume a: "\<not> list_ex (\<lambda>a. is_file (files w a)) (prefixes (split_path [] directory_path))
          \<and> (\<forall>f a. mkdir_error rt f a = None) \<and> (\<forall>f a. open_error rt f a = None)"
  then have c: "\<not> list_ex (\<lambda>a. is_file (files w a)) (prefixes profiles_dir)"
    unfolding split_directory_path by (rule conjunct1)
  from a have m: "\<forall>f a. mkdir_error rt f a = None" by (rule conjunct1 [OF conjunct2])
  from a have o: "\<forall>f a. open_error rt f a = None" by (rule conjunct2 [OF conjunct2])
  show "fst (create_default_profiles rt w) = Inr ()"
    by (rule cdp_allowed [OF assms c m o])
next
  fix p n assume "files w p = Some n"
  with assms show "files (snd (create_default_profiles rt w)) p = Some n" by (rule cdp_keeps)
next
  assume r: "fst (create_default_profiles rt w) = Inr ()"
  show "fst (create_default_profiles rt (snd (create_default_profiles rt w))) = Inr ()"
    and "files (snd (create_default_profiles rt (snd (create_default_profiles rt w))))
           = files (snd (create_default_profiles rt w))"
    unfolding cdp_again [OF assms r] by simp_all
qed

theorem default_profile_written_once_witness:
  "wf_fs (files world_with_profile)
   \<and> os_path_exists (files world_with_profile) file_path
   \<and> files (snd (create_default_profiles example_runtime world_with_profile))
       = files world_with_profile
   \<and> wf_fs (files example_world)
   \<and> \<not> os_path_exists (files example_world) file_path
   \<and> \<not> list_ex (\<lambda>a. is_file (files example_world a)) (prefixes (split_path [] directory_path))
   \<and> (\<forall>f a. mkdir_error example_runtime f a = None)
   \<and> (\<forall>f a. open_error example_runtime f a = None)
   \<and> fst (create_default_profiles example_runtime example_world) = Inr ()
   \<and> files (snd (create_default_profiles example_runtime example_world)) (split_path [] file_path)
       = Some (File (yaml_dump example_runtime profile))
   \<and> files (snd (create_default_profiles example_runtime
                   (snd (create_default_profiles example_runtime example_world))))
       = files (snd (create_default_profiles example_runtime example_world))
   \<and> fst (create_default_profiles readonly_runtime example_world)
       = Inl (OSError ''PermissionError'')"
proof (intro conjI)
  show w1: "wf_fs (files world_with_profile)"
    by (simp add: world_with_profile_def wf_files_with_profile)
  show e1: "os_path_exists (files world_with_profile) file_path"
    by (simp add: exists_file_path world_with_profile_def files_with_profile_def)
  show "files (snd (create_default_profiles example_runtime world_with_profile))
       = files world_with_profile"
    by (rule conjunct2 [OF mp [OF conjunct1 [OF default_profile_written_once [OF w1]] e1]])
  show w2: "wf_fs (files example_world)"
    by (simp add: example_world_def wf_example_files)
  show e2: "\<not> os_path_exists (files example_world) file_path"
    by (simp add: exists_file_path example_world_def example_files_def)
  show n2: "\<not> list_ex (\<lambda>a. is_file (files example_world a)) (prefixes (split_path [] directory_path))"
    by (simp add: split_directory_path example_world_def example_files_def is_file_def)
  show m2: "\<forall>f a. mkdir_error example_runtime f a = None"
    by (simp add: example_runtime_def)
  show o2: "\<forall>f a. open_error example_runtime f a = None"
    by (simp add: example_runtime_def)
  note run = default_profile_written_once [OF w2, of example_runtime]
  show r2: "fst (create_default_profiles example_runtime example_world) = Inr ()"
    by (rule mp [OF conjunct1 [OF conjunct2 [OF conjunct2 [OF run]]]
          conjI [OF n2 conjI [OF m2 o2]]])
  from mp [OF conjunct1 [OF conjunct2 [OF run]] e2] r2
  show "files (snd (create_default_profiles example_runtime example_world)) (split_path [] file_path)
       = Some (File (yaml_dump example_runtime profile))"
    by auto
  show "files (snd (create_default_profiles example_runtime
                   (snd (create_default_profiles example_runtime example_world))))
       = files (snd (create_default_profiles example_runtime example_world))"
    by (rule conjunct2 [OF mp [OF conjunct2 [OF conjunct2 [OF conjunct2 [OF conjunct2 [OF run]]]] r2]])
  show "fst (create_default_profiles readonly_runtime example_world)
       = Inl (OSError ''PermissionError'')"
    unfolding readonly_refused by simp
qed

section \<open>Claims about credentials and the environment\<close>

lemma map_profile_cases:
  "get_connection rt (conn_id self) = Inr conn \<Longrightarrow>
   map_profile rt self w =
     (if conn_type conn = ''postgres''
      then (Inr (''postgres_profile'', profile_vars conn self), w)
      else case type_attribute conn of
             None \<Rightarrow> (Inl (AttributeError ''type''), w)
           | Some t \<Rightarrow> (Inl (SystemExit 1),
                w\<lparr>stderr := stderr w @ [''Connection type '' @ t @ '' is not yet supported.'']\<rparr>))"
  by (simp add: map_profile_def)

text \<open>
  Claim C7 says that a connection of any type other than postgres is reported on the standard
  error stream and ends the process with a non-zero exit code. The code means to do so, but
  its message reads \<^verbatim>\<open>conn.type\<close> where the connection's attribute is \<^verbatim>\<open>conn_type\<close>: for a
  connection object without an attribute \<^verbatim>\<open>type\<close> the formatting of the message raises
  \<^verbatim>\<open>AttributeError\<close> before anything is printed and before \<^verbatim>\<open>sys.exit\<close> is reached. Here a
  mysql connection: the result is the attribute error and the error stream stays empty.
\<close>

theorem unsupported_connection_raises_attribute_error:
  "map_profile mysql_runtime example_operator example_world
     = (Inl (AttributeError ''type''), example_world)
   \<and> stderr example_world = []"
proof -
  have g: "get_connection mysql_runtime (conn_id example_operator)
             = Inr (example_connection\<lparr>conn_type := ''mysql''\<rparr>)"
    by (simp add: mysql_runtime_def)
  show ?thesis
    unfolding map_profile_cases [OF g]
    by (simp add: example_connection_def example_world_def)
qed

lemma profile_vars_at:
  "profile_vars conn self ''POSTGRES_HOST'' = Some (host conn)"
  "profile_vars conn self ''POSTGRES_USER'' = Some (login conn)"
  "profile_vars conn self ''POSTGRES_PASSWORD'' = Some (password conn)"
  "profile_vars conn self ''POSTGRES_DATABASE'' = Some (conn_schema conn)"
  "profile_vars conn self ''POSTGRES_PORT''
     = Some (Some (case port conn of None \<Rightarrow> ''None'' | Some n \<Rightarrow> str_int n))"
  "profile_vars conn self ''POSTGRES_SCHEMA'' = Some (schema self)"
  by (simp_all add: profile_vars_def)

lemma profile_vars_dom: "dom (profile_vars conn self) = credential_keys"
  unfolding profile_vars_def credential_keys_def by (simp add: insert_commute)

lemma final_env_outside:
  "k \<notin> credential_keys \<Longrightarrow> (m ++ profile_vars conn self) k = m k"
  using profile_vars_dom [of conn self] by (simp add: map_add_def domIff split: option.splits) blast

lemma get_env_context: "ctx k = Some v \<Longrightarrow> get_env rt self ctx k = Some v"
  by (simp add: get_env_def Let_def)

lemma example_prepare_any:
  assumes "project_dir self = Some ''/x''"
  shows "execute_prepare example_runtime self ctx example_world
     = (Inr ([Some (resolved_dbt example_runtime), base_cmd self]
               @ map Some (add_global_flags self)
               @ [Some ''--profile'', Some ''postgres_profile''],
             get_env example_runtime self ctx ++ profile_vars example_connection self),
        snd (create_default_profiles example_runtime example_world))"
proof -
  have bc: "build_command example_runtime
              (files (snd (create_default_profiles example_runtime example_world))) self
            = Inr ([Some (resolved_dbt example_runtime), base_cmd self]
                     @ map Some (add_global_flags self))"
    unfolding build_command_cases assms
    using example_create(2) isdir_exists [OF example_create(2)] by simp
  have gc: "get_connection example_runtime (conn_id self) = Inr example_connection"
    by (simp add: example_runtime_def)
  have ct: "conn_type example_connection = ''postgres''" by (simp add: example_connection_def)
  show ?thesis
    using execute_prepare_success [OF example_create(1) gc ct bc, of ctx] by simp
qed


lemma with_env_facts:
  "project_dir operator_with_env = Some ''/x''"
  "env operator_with_env = Some [''DBT_TARGET'' \<mapsto> Some ''dev'']"
  "\<not> append_env operator_with_env"
  by (simp_all add: operator_with_env_def example_operator_def DBTBaseOperator_def)

lemma with_env_get_env:
  "get_env example_runtime operator_with_env Map.empty ''PATH'' = None"
  using with_env_facts(3) by (simp add: get_env_def Let_def with_env_facts(2))

text \<open>
  Claim C4, as stated: the environment of the subprocess merges the inherited environment,
  the user's \<^verbatim>\<open>env\<close> map and the context variables. With an \<^verbatim>\<open>env\<close> map and
  \<^verbatim>\<open>append_env\<close> left at its default \<^verbatim>\<open>False\<close>, the inherited environment is not part of
  the result: \<^verbatim>\<open>PATH\<close> is inherited and is absent from what the subprocess gets.
\<close>

theorem inherited_environment_dropped_counterexample:
  "os_environ example_runtime ''PATH'' = Some (Some ''/usr/bin'')
   \<and> get_env example_runtime operator_with_env Map.empty ''PATH'' = None
   \<and> (case fst (execute_prepare example_runtime operator_with_env Map.empty example_world) of
         Inl _ \<Rightarrow> False
       | Inr (cmd, e) \<Rightarrow> e ''PATH'' = None)"
proof (intro conjI)
  show "os_environ example_runtime ''PATH'' = Some (Some ''/usr/bin'')"
    by (simp add: example_runtime_def)
  show "get_env example_runtime operator_with_env Map.empty ''PATH'' = None"
    by (rule with_env_get_env)
  have "''PATH'' \<notin> credential_keys" by (simp add: credential_keys_def)
  from final_env_outside [OF this]
  have "(get_env example_runtime operator_with_env Map.empty
           ++ profile_vars example_connection operator_with_env) ''PATH'' = None"
    by (simp add: with_env_get_env)
  then show "case fst (execute_prepare example_runtime operator_with_env Map.empty example_world) of
         Inl _ \<Rightarrow> False
       | Inr (cmd, e) \<Rightarrow> e ''PATH'' = None"
    unfolding example_prepare_any [OF with_env_facts(1)] by simp
qed

text \<open>
  Claim C4, amended. \<^verbatim>\<open>get_env\<close> starts from the inherited environment when no \<^verbatim>\<open>env\<close> map
  was given, from the \<^verbatim>\<open>env\<close> map alone when one was given and \<^verbatim>\<open>append_env\<close> is false, and
  from the inherited environment overridden by the \<^verbatim>\<open>env\<close> map when \<^verbatim>\<open>append_env\<close> is true;
  the context variables are written over that, so a context variable always has its own value
  in the result. The environment handed to the subprocess agrees with it on every key that
  is not one of the six credential variables; on those keys a context variable's value is the
  final one.
\<close>

theorem environment_layers:
  "get_env rt self ctx =
     (case env self of
        None \<Rightarrow> os_environ rt
      | Some user \<Rightarrow> if append_env self then os_environ rt ++ user else user) ++ ctx
   \<and> (\<forall>k v. ctx k = Some v \<longrightarrow> get_env rt self ctx k = Some v)
   \<and> (\<forall>cmd e w1. execute_prepare rt self ctx w = (Inr (cmd, e), w1) \<longrightarrow>
         (\<forall>k. k \<notin> credential_keys \<longrightarrow> e k = get_env rt self ctx k)
         \<and> (\<forall>k v. ctx k = Some v \<and> k \<notin> credential_keys \<longrightarrow> e k = Some v))"
proof (intro conjI allI impI)
  show "get_env rt self ctx =
     (case env self of
        None \<Rightarrow> os_environ rt
      | Some user \<Rightarrow> if append_env self then os_environ rt ++ user else user) ++ ctx"
    by (simp add: get_env_def Let_def)
next
  fix k v assume "ctx k = Some v"
  then show "get_env rt self ctx k = Some v" by (rule get_env_context)
next
  fix cmd e w1 k
  assume p: "execute_prepare rt self ctx w = (Inr (cmd, e), w1)" and k: "k \<notin> credential_keys"
  from execute_prepare_Inr(2) [OF p] obtain conn
    where "e = get_env rt self ctx ++ profile_vars conn self" by blast
  then show "e k = get_env rt self ctx k" using final_env_outside [OF k] by simp
next
  fix cmd e w1 k v
  assume p: "execute_prepare rt self ctx w = (Inr (cmd, e), w1)"
    and kv: "ctx k = Some v \<and> k \<notin> credential_keys"
  from execute_prepare_Inr(2) [OF p] obtain conn
    where "e = get_env rt self ctx ++ profile_vars conn self" by blast
  then have "e k = get_env rt self ctx k" using final_env_outside [of k] kv by simp
  then show "e k = Some v" using get_env_context [of ctx k v] kv by simp
qed


theorem environment_layers_witness:
  "execute_prepare example_runtime operator_with_env
       [''AIRFLOW_CTX_DAG_ID'' \<mapsto> Some ''my_dag''] example_world
     = (Inr ([Some (resolved_dbt example_runtime), base_cmd operator_with_env]
               @ map Some (add_global_flags operator_with_env)
               @ [Some ''--profile'', Some ''postgres_profile''],
             get_env example_runtime operator_with_env [''AIRFLOW_CTX_DAG_ID'' \<mapsto> Some ''my_dag'']
               ++ profile_vars example_connection operator_with_env),
        snd (create_default_profiles example_runtime example_world))
   \<and> [''AIRFLOW_CTX_DAG_ID'' \<mapsto> Some ''my_dag''] ''AIRFLOW_CTX_DAG_ID'' = Some (Some ''my_dag'')
   \<and> ''AIRFLOW_CTX_DAG_ID'' \<notin> credential_keys
   \<and> (get_env example_runtime operator_with_env [''AIRFLOW_CTX_DAG_ID'' \<mapsto> Some ''my_dag'']
               ++ profile_vars example_connection operator_with_env) ''AIRFLOW_CTX_DAG_ID''
       = Some (Some ''my_dag'')"
proof (intro conjI)
  show p: "execute_prepare example_runtime operator_with_env
       [''AIRFLOW_CTX_DAG_ID'' \<mapsto> Some ''my_dag''] example_world
     = (Inr ([Some (resolved_dbt example_runtime), base_cmd operator_with_env]
               @ map Some (add_global_flags operator_with_env)
               @ [Some ''--profile'', Some ''postgres_profile''],
             get_env example_runtime operator_with_env [''AIRFLOW_CTX_DAG_ID'' \<mapsto> Some ''my_dag'']
               ++ profile_vars example_connection operator_with_env),
        snd (create_default_profiles example_runtime example_world))"
    by (rule example_prepare_any [OF with_env_facts(1)])
  show c: "[''AIRFLOW_CTX_DAG_ID'' \<mapsto> Some ''my_dag''] ''AIRFLOW_CTX_DAG_ID'' = Some (Some ''my_dag'')"
    by simp
  show k: "''AIRFLOW_CTX_DAG_ID'' \<notin> credential_keys" by (simp add: credential_keys_def)
  note t = conjunct2 [OF conjunct2 [OF environment_layers
             [of example_runtime operator_with_env "[''AIRFLOW_CTX_DAG_ID'' \<mapsto> Some ''my_dag'']"
                 example_world]]]
  note u = conjunct2 [OF mp [OF spec [OF spec [OF spec [OF t]]] p]]
  show "(get_env example_runtime operator_with_env [''AIRFLOW_CTX_DAG_ID'' \<mapsto> Some ''my_dag'']
               ++ profile_vars example_connection operator_with_env) ''AIRFLOW_CTX_DAG_ID''
       = Some (Some ''my_dag'')"
    by (rule mp [OF spec [OF spec [OF u]] conjI [OF c k]])
qed

lemma with_schema_facts:
  "project_dir operator_with_schema = Some ''/x''"
  "schema operator_with_schema = Some ''analytics''"
  by (simp_all add: operator_with_schema_def example_operator_def DBTBaseOperator_def)

text \<open>
  Claim C9, as stated: the six credential variables hold values taken from the resolved
  connection record. \<^verbatim>\<open>POSTGRES_SCHEMA\<close> does not: it holds the operator's own \<^verbatim>\<open>schema\<close>
  argument. With \<^verbatim>\<open>schema="analytics"\<close> the subprocess gets that value, which is no field
  of the connection.
\<close>

theorem schema_not_from_connection_counterexample:
  "(case fst (execute_prepare example_runtime operator_with_schema Map.empty example_world) of
      Inl _ \<Rightarrow> False
    | Inr (cmd, e) \<Rightarrow> e ''POSTGRES_SCHEMA'' = Some (Some ''analytics''))
   \<and> Some ''analytics'' \<notin> {host example_connection, login example_connection,
         password example_connection, conn_schema example_connection, Some (str_int 5432)}
   \<and> port example_connection = Some 5432"
proof (intro conjI)
  show "case fst (execute_prepare example_runtime operator_with_schema Map.empty example_world) of
      Inl _ \<Rightarrow> False
    | Inr (cmd, e) \<Rightarrow> e ''POSTGRES_SCHEMA'' = Some (Some ''analytics'')"
    unfolding example_prepare_any [OF with_schema_facts(1)]
    by (simp add: profile_vars_at(6) with_schema_facts(2))
  show "Some ''analytics'' \<notin> {host example_connection, login example_connection,
         password example_connection, conn_schema example_connection, Some (str_int 5432)}"
    unfolding str_int_5432 by (simp add: example_connection_def)
  show "port example_connection = Some 5432" by (simp add: example_connection_def)
qed

text \<open>
  Claim C9, amended. In the environment handed to the subprocess, \<^verbatim>\<open>POSTGRES_HOST\<close>,
  \<^verbatim>\<open>POSTGRES_USER\<close>, \<^verbatim>\<open>POSTGRES_PASSWORD\<close>, \<^verbatim>\<open>POSTGRES_DATABASE\<close> and \<^verbatim>\<open>POSTGRES_PORT\<close>
  hold the connection's host, login, password, schema and \<^verbatim>\<open>str(port)\<close>, and
  \<^verbatim>\<open>POSTGRES_SCHEMA\<close> holds the operator's \<^verbatim>\<open>schema\<close> argument, whatever the inherited
  environment, the \<^verbatim>\<open>env\<close> map or the context variables bind these keys to.
\<close>

theorem credential_variables_override:
  "execute_prepare rt self ctx w = (Inr (cmd, e), w1) \<longrightarrow>
     (\<exists>conn. get_connection rt (conn_id self) = Inr conn \<and> conn_type conn = ''postgres''
        \<and> e ''POSTGRES_HOST'' = Some (host conn)
        \<and> e ''POSTGRES_USER'' = Some (login conn)
        \<and> e ''POSTGRES_PASSWORD'' = Some (password conn)
        \<and> e ''POSTGRES_DATABASE'' = Some (conn_schema conn)
        \<and> e ''POSTGRES_PORT''
            = Some (Some (case port conn of None \<Rightarrow> ''None'' | Some n \<Rightarrow> str_int n))
        \<and> e ''POSTGRES_SCHEMA'' = Some (schema self))"
proof
  assume p: "execute_prepare rt self ctx w = (Inr (cmd, e), w1)"
  from execute_prepare_Inr(2) [OF p] obtain conn
    where c: "get_connection rt (conn_id self) = Inr conn" "conn_type conn = ''postgres''"
      and e: "e = get_env rt self ctx ++ profile_vars conn self" by blast
  have "e ''POSTGRES_HOST'' = Some (host conn)"
    "e ''POSTGRES_USER'' = Some (login conn)"
    "e ''POSTGRES_PASSWORD'' = Some (password conn)"
    "e ''POSTGRES_DATABASE'' = Some (conn_schema conn)"
    "e ''POSTGRES_PORT''
            = Some (Some (case port conn of None \<Rightarrow> ''None'' | Some n \<Rightarrow> str_int n))"
    "e ''POSTGRES_SCHEMA'' = Some (schema self)"
    unfolding e by (simp_all add: map_add_def profile_vars_at)
  with c show "\<exists>conn. get_connection rt (conn_id self) = Inr conn \<and> conn_type conn = ''postgres''
        \<and> e ''POSTGRES_HOST'' = Some (host conn)
        \<and> e ''POSTGRES_USER'' = Some (login conn)
        \<and> e ''POSTGRES_PASSWORD'' = Some (password conn)
        \<and> e ''POSTGRES_DATABASE'' = Some (conn_schema conn)
        \<and> e ''POSTGRES_PORT''
            = Some (Some (case port conn of None \<Rightarrow> ''None'' | Some n \<Rightarrow> str_int n))
        \<and> e ''POSTGRES_SCHEMA'' = Some (schema self)"
    by (intro exI [of _ conn] conjI)
qed


theorem credential_variables_override_witness:
  "execute_prepare example_runtime operator_with_schema
       [''POSTGRES_HOST'' \<mapsto> Some ''elsewhere''] example_world
     = (Inr ([Some (resolved_dbt example_runtime), base_cmd operator_with_schema]
               @ map Some (add_global_flags operator_with_schema)
               @ [Some ''--profile'', Some ''postgres_profile''],
             get_env example_runtime operator_with_schema [''POSTGRES_HOST'' \<mapsto> Some ''elsewhere'']
               ++ profile_vars example_connection operator_with_schema),
        snd (create_default_profiles example_runtime example_world))
   \<and> (get_env example_runtime operator_with_schema [''POSTGRES_HOST'' \<mapsto> Some ''elsewhere'']
               ++ profile_vars example_connection operator_with_schema) ''POSTGRES_HOST''
       = Some (Some ''db.local'')
   \<and> (get_env example_runtime operator_with_schema [''POSTGRES_HOST'' \<mapsto> Some ''elsewhere'']
               ++ profile_vars example_connection operator_with_schema) ''POSTGRES_SCHEMA''
       = Some (Some ''analytics'')"
proof -
  let ?E = "get_env example_runtime operator_with_schema [''POSTGRES_HOST'' \<mapsto> Some ''elsewhere'']
               ++ profile_vars example_connection operator_with_schema"
  have p: "execute_prepare example_runtime operator_with_schema
       [''POSTGRES_HOST'' \<mapsto> Some ''elsewhere''] example_world
     = (Inr ([Some (resolved_dbt example_runtime), base_cmd operator_with_schema]
               @ map Some (add_global_flags operator_with_schema)
               @ [Some ''--profile'', Some ''postgres_profile''], ?E),
        snd (create_default_profiles example_runtime example_world))"
    by (rule example_prepare_any [OF with_schema_facts(1)])
  from mp [OF credential_variables_override p] obtain conn
    where a: "get_connection example_runtime (conn_id operator_with_schema) = Inr conn
        \<and> conn_type conn = ''postgres''
        \<and> ?E ''POSTGRES_HOST'' = Some (host conn)
        \<and> ?E ''POSTGRES_USER'' = Some (login conn)
        \<and> ?E ''POSTGRES_PASSWORD'' = Some (password conn)
        \<and> ?E ''POSTGRES_DATABASE'' = Some (conn_schema conn)
        \<and> ?E ''POSTGRES_PORT''
            = Some (Some (case port conn of None \<Rightarrow> ''None'' | Some n \<Rightarrow> str_int n))
        \<and> ?E ''POSTGRES_SCHEMA'' = Some (schema operator_with_schema)" ..
  note g = conjunct1 [OF a]
  note h = conjunct1 [OF conjunct2 [OF conjunct2 [OF a]]]
  note s = conjunct2 [OF conjunct2 [OF conjunct2 [OF conjunct2 [OF conjunct2
             [OF conjunct2 [OF conjunct2 [OF a]]]]]]]
  have "Inr conn = (Inr example_connection :: error + connection)"
    unfolding g [symmetric] by (simp add: example_runtime_def)
  then have c: "conn = example_connection" by (rule Inr_inject)
  have hc: "host conn = Some ''db.local''" unfolding c by (simp add: example_connection_def)
  have 1: "?E ''POSTGRES_HOST'' = Some (Some ''db.local'')" unfolding h hc ..
  have 2: "?E ''POSTGRES_SCHEMA'' = Some (Some ''analytics'')" unfolding s with_schema_facts(2) ..
  from p 1 2 show ?thesis by (intro conjI)
qed

section \<open>Claims about the converter\<close>

lemma validate_arguments_cases:
  "validate_arguments rbl sel exc task_args =
     (if set (rbl sel ''tags'') \<inter> set (rbl exc ''tags'') \<noteq> {}
      then Inl (AirflowItemsException ''Can't specify the same tag in `select` and `exclude`: ''
                  (set (rbl sel ''tags'') \<inter> set (rbl exc ''tags'')))
      else if set (rbl sel ''paths'') \<inter> set (rbl exc ''paths'') \<noteq> {}
      then Inl (AirflowItemsException ''Can't specify the same path in `select` and `exclude`: ''
                  (set (rbl sel ''paths'') \<inter> set (rbl exc ''paths'')))
      else if ''schema'' \<in> dom task_args
      then Inl (AirflowException
             ''The `schema` argument is no longer supported. Please use the `profile_args` instead.'')
      else Inr ())"
  by (simp add: validate_arguments_def Let_def)

lemma overlap_iff:
  "overlap rbl sel exc \<longleftrightarrow>
     set (rbl sel ''tags'') \<inter> set (rbl exc ''tags'') \<noteq> {}
     \<or> set (rbl sel ''paths'') \<inter> set (rbl exc ''paths'') \<noteq> {}"
  unfolding overlap_def list_ex_iff by auto

lemma validate_overlap:
  assumes "overlap rbl sel exc"
  shows "\<exists>m items. validate_arguments rbl sel exc task_args = Inl (AirflowItemsException m items)
           \<and> items \<noteq> {}"
  using assms unfolding overlap_iff validate_arguments_cases by auto

lemma validate_ok:
  assumes "\<not> overlap rbl sel exc" "''schema'' \<notin> dom task_args"
  shows "validate_arguments rbl sel exc task_args = Inr ()"
  using assms unfolding overlap_iff validate_arguments_cases by simp

lemma converter_overlap:
  assumes "overlap rbl (or_empty sel_arg) (or_empty exc_arg)"
  shows "\<exists>e. DbtToAirflowConverter rbl load build sel_arg exc_arg dbt_args operator_args pd pc = Inl e"
proof (cases "load (or_empty sel_arg) (or_empty exc_arg)")
  case (Inl e)
  then show ?thesis by (simp add: DbtToAirflowConverter_def Let_def)
next
  case (Inr nodes)
  from validate_overlap [OF assms] obtain m items where
    "validate_arguments rbl (or_empty sel_arg) (or_empty exc_arg)
       ((dbt_args ++ operator_args)(''project_dir'' \<mapsto> pd, ''profile_config'' \<mapsto> pc))
     = Inl (AirflowItemsException m items)" by blast
  with Inr show ?thesis by (simp add: DbtToAirflowConverter_def Let_def)
qed


lemma converter_ok:
  assumes "\<not> overlap rbl (or_empty sel_arg) (or_empty exc_arg)"
    and "''schema'' \<notin> dom dbt_args \<union> dom operator_args"
    and "load (or_empty sel_arg) (or_empty exc_arg) = Inr nodes"
  shows "DbtToAirflowConverter rbl load build sel_arg exc_arg dbt_args operator_args pd pc
           = Inr (build nodes
               ((dbt_args ++ operator_args)(''project_dir'' \<mapsto> pd, ''profile_config'' \<mapsto> pc)))"
proof -
  have "''schema'' \<notin> dom ((dbt_args ++ operator_args)(''project_dir'' \<mapsto> pd, ''profile_config'' \<mapsto> pc))"
    using assms(2) by simp
  from validate_ok [OF assms(1) this] assms(3)
  show ?thesis by (simp add: DbtToAirflowConverter_def Let_def)
qed

text \<open>
  Claim C3. For every pair of select and exclude lists: if an item of one label category
  (tags or paths) is in both lists, \<^verbatim>\<open>validate_arguments\<close> raises a configuration error that
  names the common items, and the converter's constructor ends with an error, so that
  \<^verbatim>\<open>build_airflow_graph\<close> is never reached and no task is created; if there is no such item and
  the deprecated \<^verbatim>\<open>schema\<close> argument is absent, validation raises nothing, and the constructor
  goes on to build the tasks from the loaded nodes.
\<close>

theorem overlapping_selectors_rejected:
  "(overlap rbl sel exc \<longrightarrow>
      (\<exists>m items. validate_arguments rbl sel exc task_args = Inl (AirflowItemsException m items)
          \<and> items \<noteq> {}))
   \<and> (overlap rbl (or_empty sel_arg) (or_empty exc_arg) \<longrightarrow>
      (\<exists>e. DbtToAirflowConverter rbl load build sel_arg exc_arg dbt_args operator_args pd pc
              = Inl e))
   \<and> (\<not> overlap rbl sel exc \<and> ''schema'' \<notin> dom task_args \<longrightarrow>
      validate_arguments rbl sel exc task_args = Inr ())
   \<and> (\<not> overlap rbl (or_empty sel_arg) (or_empty exc_arg)
        \<and> ''schema'' \<notin> dom dbt_args \<union> dom operator_args
        \<and> load (or_empty sel_arg) (or_empty exc_arg) = Inr nodes \<longrightarrow>
      DbtToAirflowConverter rbl load build sel_arg exc_arg dbt_args operator_args pd pc
        = Inr (build nodes
            ((dbt_args ++ operator_args)(''project_dir'' \<mapsto> pd, ''profile_config'' \<mapsto> pc))))"
proof (intro conjI impI)
  assume "overlap rbl sel exc"
  then show "\<exists>m items. validate_arguments rbl sel exc task_args = Inl (AirflowItemsException m items)
          \<and> items \<noteq> {}"
    by (rule validate_overlap)
next
  assume "overlap rbl (or_empty sel_arg) (or_empty exc_arg)"
  then show "\<exists>e. DbtToAirflowConverter rbl load build sel_arg exc_arg dbt_args operator_args pd pc
              = Inl e"
    by (rule converter_overlap)
next
  assume "\<not> overlap rbl sel exc \<and> ''schema'' \<notin> dom task_args"
  then show "validate_arguments rbl sel exc task_args = Inr ()"
    using validate_ok [of rbl sel exc task_args] by simp
next
  assume "\<not> overlap rbl (or_empty sel_arg) (or_empty exc_arg)
        \<and> ''schema'' \<notin> dom dbt_args \<union> dom operator_args
        \<and> load (or_empty sel_arg) (or_empty exc_arg) = Inr nodes"
  then show "DbtToAirflowConverter rbl load build sel_arg exc_arg dbt_args operator_args pd pc
        = Inr (build nodes
            ((dbt_args ++ operator_args)(''project_dir'' \<mapsto> pd, ''profile_config'' \<mapsto> pc)))"
    using converter_ok [of rbl sel_arg exc_arg dbt_args operator_args load nodes build pd pc]
    by simp
qed

lemma example_overlap:
  "overlap retrieve_by_label_spec [''tag:nightly'', ''path:models/a''] [''tag:nightly'']"
  by (simp add: overlap_def retrieve_by_label_spec_def strip_prefix_def)

lemma example_no_overlap:
  "\<not> overlap retrieve_by_label_spec [''tag:a'', ''path:models/a''] [''tag:b'']"
  by (simp add: overlap_def retrieve_by_label_spec_def strip_prefix_def)

theorem overlapping_selectors_rejected_witness:
  "overlap retrieve_by_label_spec [''tag:nightly'', ''path:models/a''] [''tag:nightly'']
   \<and> (\<exists>m items. validate_arguments retrieve_by_label_spec
          [''tag:nightly'', ''path:models/a''] [''tag:nightly''] (Map.empty :: string \<rightharpoonup> string)
          = Inl (AirflowItemsException m items) \<and> items \<noteq> {})
   \<and> \<not> overlap retrieve_by_label_spec [''tag:a'', ''path:models/a''] [''tag:b'']
   \<and> ''schema'' \<notin> dom (Map.empty :: string \<rightharpoonup> string)
   \<and> validate_arguments retrieve_by_label_spec [''tag:a'', ''path:models/a''] [''tag:b'']
        (Map.empty :: string \<rightharpoonup> string) = Inr ()"
proof (intro conjI)
  show "overlap retrieve_by_label_spec [''tag:nightly'', ''path:models/a''] [''tag:nightly'']"
    by (rule example_overlap)
  show "\<exists>m items. validate_arguments retrieve_by_label_spec
          [''tag:nightly'', ''path:models/a''] [''tag:nightly''] (Map.empty :: string \<rightharpoonup> string)
          = Inl (AirflowItemsException m items) \<and> items \<noteq> {}"
    by (rule mp [OF conjunct1 [OF overlapping_selectors_rejected] example_overlap])
  show "\<not> overlap retrieve_by_label_spec [''tag:a'', ''path:models/a''] [''tag:b'']"
    by (rule example_no_overlap)
  show s: "''schema'' \<notin> dom (Map.empty :: string \<rightharpoonup> string)" by simp
  show "validate_arguments retrieve_by_label_spec [''tag:a'', ''path:models/a''] [''tag:b'']
        (Map.empty :: string \<rightharpoonup> string) = Inr ()"
    by (rule mp [OF conjunct1 [OF conjunct2 [OF conjunct2 [OF overlapping_selectors_rejected]]]
          conjI [OF example_no_overlap s]])
qed

end
